theory Spec2Isabelle
  imports Main
begin

section \<open>Values exchanged with the outside world\<close>

text \<open>
  The journal routes (\<^verbatim>\<open>Server/routes/journal.js\<close> and its later revision with the
  lazily initialised Gemini client) talk to three things that are not part of the
  repository: the JavaScript runtime (\<^verbatim>\<open>JSON.parse\<close>), the generative-text SDK
  (\<^verbatim>\<open>generateContent\<close>) and the Mongoose document store. Their answers are inputs of
  the model. Definitions of the later revision carry the suffix \<open>_p3\<close>.

  A decoded JSON value. Numbers are kept as integers: the routes only test a number
  for being zero (truthiness).
\<close>

datatype json =
    JNull
  | JBool bool
  | JNum int
  | JStr string
  | JArr "json list"
  | JObj "(string \<times> json) list"

text \<open>JavaScript truthiness of a decoded value, as used by \<^verbatim>\<open>||\<close>.\<close>

fun truthy :: "json \<Rightarrow> bool" where
  "truthy JNull = False"
| "truthy (JBool b) = b"
| "truthy (JNum n) = (n \<noteq> 0)"
| "truthy (JStr s) = (s \<noteq> [])"
| "truthy (JArr xs) = True"
| "truthy (JObj kvs) = True"

text \<open>
  Property access \<^verbatim>\<open>parsed.key\<close>: reading a property of \<^verbatim>\<open>null\<close> throws a TypeError
  (\<open>Inl ()\<close>); an object yields the member or \<^verbatim>\<open>undefined\<close> (\<open>None\<close>); strings,
  numbers, booleans and arrays have neither a \<^verbatim>\<open>summary\<close> nor a \<^verbatim>\<open>mood\<close> property.
\<close>

fun get_prop :: "json \<Rightarrow> string \<Rightarrow> unit + json option" where
  "get_prop JNull k = Inl ()"
| "get_prop (JObj kvs) k = Inr (map_of kvs k)"
| "get_prop v k = Inr None"

text \<open>\<^verbatim>\<open>x || d\<close> where \<^verbatim>\<open>x\<close> may be \<^verbatim>\<open>undefined\<close>.\<close>

definition or_default :: "json option \<Rightarrow> json \<Rightarrow> json" where
  "or_default x d = (case x of None \<Rightarrow> d | Some v \<Rightarrow> if truthy v then v else d)"

text \<open>
  What \<^verbatim>\<open>await model.generateContent(prompt)\<close> can produce. The later revision
  normalises several result shapes; the constructors name the first branch of its
  \<^verbatim>\<open>if\<close>/\<^verbatim>\<open>else if\<close> chain that a result takes. A \<^verbatim>\<open>text()\<close> method either returns a
  string or throws (\<open>None\<close>).
\<close>

datatype response_shape =
    RespString string            \<comment> \<open>\<^verbatim>\<open>typeof resp === 'string'\<close>\<close>
  | RespText "string option"     \<comment> \<open>\<^verbatim>\<open>typeof resp.text === 'function'\<close>\<close>
  | RespOther string             \<comment> \<open>anything else, with its \<^verbatim>\<open>String(resp)\<close>\<close>

datatype output_item =
    OutContent "string option list"  \<comment> \<open>\<^verbatim>\<open>o.content\<close> is an array; each \<^verbatim>\<open>c.text\<close> or undefined\<close>
  | OutText "string option"          \<comment> \<open>otherwise \<^verbatim>\<open>o?.text\<close>\<close>

datatype sdk_result =
    ResFalsy                         \<comment> \<open>\<^verbatim>\<open>!result\<close>\<close>
  | ResString string                 \<comment> \<open>\<^verbatim>\<open>typeof result === 'string'\<close>\<close>
  | ResResponse response_shape       \<comment> \<open>\<^verbatim>\<open>result?.response\<close> is truthy\<close>
  | ResOutput "output_item list"     \<comment> \<open>\<^verbatim>\<open>Array.isArray(result?.output)\<close>\<close>
  | ResTextFn "string option"        \<comment> \<open>\<^verbatim>\<open>typeof result?.text === 'function'\<close>\<close>
  | ResOther string                  \<comment> \<open>anything else, with its \<^verbatim>\<open>String(result)\<close>\<close>

datatype gen_outcome =
    Rejects                          \<comment> \<open>the call raises: network, auth, quota, ...\<close>
  | Resolves sdk_result

text \<open>
  The collaborators outside the repository. \<open>JSON_parse\<close> answers \<open>None\<close> where
  \<^verbatim>\<open>JSON.parse\<close> throws a SyntaxError. \<open>cast_other\<close> is the store's conversion of a
  value that is not a string to a String field (\<open>None\<close>: the store refuses the value).
  \<open>castObjectId\<close> is the store's reading of the \<^verbatim>\<open>:id\<close> of a request as the id of a
  document (\<open>None\<close>: the text is not an id and the lookup throws a CastError).
\<close>

record env =
  JSON_parse :: "string \<Rightarrow> json option"
  generateContent :: "string \<Rightarrow> gen_outcome"
  cast_other :: "json \<Rightarrow> string option"
  castObjectId :: "string \<Rightarrow> nat option"

section \<open>The enrichment step: \<^verbatim>\<open>analyzeWithAI\<close>\<close>

text \<open>
  The object \<^verbatim>\<open>{ summary, mood }\<close> the function returns; its two fields are
  prefixed here because the journal document has a \<^verbatim>\<open>mood\<close> field of its own.
\<close>

record analysis =
  a_summary :: json
  a_mood :: json

definition fallback :: analysis where
  "fallback = \<lparr> a_summary = JStr ''AI analysis unavailable'', a_mood = JStr ''neutral'' \<rparr>"

text \<open>A template literal renders an absent (\<^verbatim>\<open>undefined\<close>) content as the word itself.\<close>

definition interpolate :: "string option \<Rightarrow> string" where
  "interpolate c = (case c of None \<Rightarrow> ''undefined'' | Some s \<Rightarrow> s)"

definition prompt :: "string option \<Rightarrow> string" where
  "prompt content =
     ''Analyze this journal entry and provide: 1) A brief 2-sentence summary, 2) The detected mood (choose from: happy, sad, neutral, excited, anxious, calm, angry, grateful). Format your response as JSON with keys 'summary' and 'mood'.''
     @ [CHR 0x0A, CHR 0x0A] @ ''Journal entry: '' @ interpolate content"

definition prompt_p3 :: "string option \<Rightarrow> string" where
  \<open>prompt_p3 content =
     ''Analyze this journal entry and provide:'' @ [CHR 0x0A]
     @ ''1) A brief 1-2 sentence summary.'' @ [CHR 0x0A]
     @ ''2) The detected mood (choose from: happy, sad, neutral, excited, anxious, calm, angry, grateful).'' @ [CHR 0x0A]
     @ ''Return valid JSON with keys "summary" and "mood".'' @ [CHR 0x0A, CHR 0x0A]
     @ ''Journal entry:'' @ [CHR 0x0A] @ interpolate content\<close>

text \<open>
  The last step of both revisions:
  \<^verbatim>\<open>{ summary: parsed.summary || 'No summary available', mood: parsed.mood || 'neutral' }\<close>.
  A TypeError (\<^verbatim>\<open>parsed\<close> is \<^verbatim>\<open>null\<close>) lands in the enclosing \<^verbatim>\<open>catch\<close>.
\<close>

definition pick :: "json \<Rightarrow> analysis" where
  "pick parsed =
     (case get_prop parsed ''summary'' of
        Inl _ \<Rightarrow> fallback
      | Inr s \<Rightarrow>
          (case get_prop parsed ''mood'' of
             Inl _ \<Rightarrow> fallback
           | Inr m \<Rightarrow> \<lparr> a_summary = or_default s (JStr ''No summary available''),
                        a_mood = or_default m (JStr ''neutral'') \<rparr>))"

text \<open>
  \<^verbatim>\<open>routes/journal.js\<close>: the whole body is inside \<^verbatim>\<open>try\<close>. Only a result whose
  \<^verbatim>\<open>response.text()\<close> returns gets as far as \<^verbatim>\<open>JSON.parse\<close>; every other shape
  throws a TypeError on the way. The function returns the prompts it sent together
  with its value.
\<close>

definition analyzeWithAI :: "env \<Rightarrow> string option \<Rightarrow> string list \<times> analysis" where
  "analyzeWithAI e content =
     (let p = prompt content in
      ([p],
       (case generateContent e p of
          Resolves (ResResponse (RespText (Some text))) \<Rightarrow>
            (case JSON_parse e text of
               None \<Rightarrow> fallback
             | Some parsed \<Rightarrow> pick parsed)
        | _ \<Rightarrow> fallback)))"

text \<open>
  The later revision. \<^verbatim>\<open>initGenAI\<close> returns the cached client, or builds one when
  the API key is set and the constructor does not throw.
\<close>

record genai =
  cached :: bool
  api_key :: "string option"
  ctor_throws :: bool

definition initGenAI :: "genai \<Rightarrow> bool \<times> genai" where
  "initGenAI g =
     (if cached g then (True, g)
      else if api_key g = None \<or> api_key g = Some [] then (False, g)
      else if ctor_throws g then (False, g)
      else (True, g\<lparr>cached := True\<rparr>))"

definition opt_text :: "string option \<Rightarrow> string" where
  "opt_text t = (case t of None \<Rightarrow> [] | Some s \<Rightarrow> s)"

fun item_text :: "output_item \<Rightarrow> string" where
  "item_text (OutContent cs) = concat (map opt_text cs)"
| "item_text (OutText t) = opt_text t"

text \<open>Lines 40-60: the text of a result, or \<open>None\<close> when a \<^verbatim>\<open>text()\<close> call throws.\<close>

fun extract_text :: "sdk_result \<Rightarrow> string option" where
  "extract_text ResFalsy = Some []"
| "extract_text (ResString s) = Some s"
| "extract_text (ResResponse (RespString s)) = Some s"
| "extract_text (ResResponse (RespText t)) = t"
| "extract_text (ResResponse (RespOther s)) = Some s"
| "extract_text (ResOutput items) = Some (concat (map item_text items))"
| "extract_text (ResTextFn t) = t"
| "extract_text (ResOther s) = Some s"

text \<open>
  \<^verbatim>\<open>text.match(/\{[\s\S]*\}/)\<close>: from the first opening brace to the last closing
  brace after it.
\<close>

definition match_braces :: "string \<Rightarrow> string option" where
  "match_braces text =
     (let r = dropWhile (\<lambda>c. c \<noteq> CHR ''{'') text;
          s = rev (dropWhile (\<lambda>c. c \<noteq> CHR ''}'') (rev r))
      in if s = [] then None else Some s)"

text \<open>Lines 62-71: strict decode first, then the brace substring, else \<^verbatim>\<open>{}\<close>.\<close>

definition decode_p3 :: "env \<Rightarrow> string \<Rightarrow> json" where
  "decode_p3 e text =
     (if text = [] then JObj []
      else case JSON_parse e text of
             Some v \<Rightarrow> v
           | None \<Rightarrow>
               (case match_braces text of
                  None \<Rightarrow> JObj []
                | Some m \<Rightarrow> (case JSON_parse e m of Some v \<Rightarrow> v | None \<Rightarrow> JObj [])))"

definition analyzeWithAI_p3 :: "env \<Rightarrow> genai \<Rightarrow> string option \<Rightarrow> string list \<times> analysis" where
  "analyzeWithAI_p3 e g content =
     (if \<not> fst (initGenAI g) \<or> content = None \<or> content = Some [] then ([], fallback)
      else
        (let p = prompt_p3 content in
         ([p],
          (case generateContent e p of
             Rejects \<Rightarrow> fallback
           | Resolves result \<Rightarrow>
               (case extract_text result of
                  None \<Rightarrow> fallback
                | Some text \<Rightarrow> pick (decode_p3 e text))))))"

section \<open>The journal model and the document store\<close>

text \<open>
  A stored journal (\<^verbatim>\<open>models/Journal.js\<close>). The ids of stored journals and of
  authenticated users are numbers; the \<^verbatim>\<open>:id\<close> of a request is text, which the store
  has to read as an id first. Timestamps are milliseconds since the epoch.
\<close>

record journal =
  jid :: nat
  user :: nat
  title :: string
  content :: string
  mood :: string
  aiSummary :: string
  aiMood :: string
  tags :: "string list"
  createdAt :: int
  updatedAt :: int

text \<open>A stored challenge answer (\<^verbatim>\<open>models/Challenge.js\<close>).\<close>

record challenge =
  ch_user :: nat
  ch_date :: int
  question :: string
  answer :: string
  questionType :: string
  completed :: bool

text \<open>
  What a store operation can throw: the schema refuses the listed paths, the text
  given as an id is not one, or the store itself fails (\<open>fault\<close>: connection lost and
  the like).
\<close>

datatype error = ValidationError "string list" | CastError string | StoreError string

record db =
  docs :: "journal list"
  challenges :: "challenge list"
  next_id :: nat
  fault :: "string option"

text \<open>The enum of the \<^verbatim>\<open>mood\<close> path.\<close>

definition moods :: "string list" where
  "moods = [''happy'', ''sad'', ''neutral'', ''excited'', ''anxious'', ''calm'', ''angry'', ''grateful'']"

definition is_ws :: "char \<Rightarrow> bool" where
  "is_ws c = (c \<in> set [CHR '' '', CHR 0x09, CHR 0x0A, CHR 0x0B, CHR 0x0C, CHR 0x0D])"

definition trim :: "string \<Rightarrow> string" where
  "trim s = rev (dropWhile is_ws (rev (dropWhile is_ws s)))"

definition castString :: "env \<Rightarrow> json \<Rightarrow> string option" where
  "castString e v = (case v of JStr s \<Rightarrow> Some s | _ \<Rightarrow> cast_other e v)"

text \<open>
  The fields handed to the store for one document, before casting: \<^verbatim>\<open>title\<close> and
  \<^verbatim>\<open>content\<close> may be absent, the three enrichment fields carry whatever
  \<^verbatim>\<open>analyzeWithAI\<close> returned.
\<close>

record journal_doc =
  d_user :: nat
  d_title :: "string option"
  d_content :: "string option"
  d_tags :: "string list"
  d_aiSummary :: json
  d_aiMood :: json
  d_mood :: json

text \<open>
  \<^verbatim>\<open>journalSchema\<close>: \<^verbatim>\<open>title\<close> is required and trimmed, \<^verbatim>\<open>content\<close> is required (a
  required string must be non-empty), \<^verbatim>\<open>mood\<close> must be one of the enum, every String
  path must cast, tags are trimmed. What these options do is the library's part
  (Mongoose); the paths that fail are reported together. Only a document with no
  failing path is stored, so \<open>stored_fields\<close> is used where every optional value is
  present.
\<close>

definition failing_paths :: "env \<Rightarrow> journal_doc \<Rightarrow> string list" where
  "failing_paths e d =
     (if (case d_title d of None \<Rightarrow> True | Some t \<Rightarrow> trim t = []) then [''title''] else [])
     @ (if (case d_content d of None \<Rightarrow> True | Some c \<Rightarrow> c = []) then [''content''] else [])
     @ (if (case castString e (d_mood d) of None \<Rightarrow> True | Some m \<Rightarrow> m \<notin> set moods)
        then [''mood''] else [])
     @ (if castString e (d_aiSummary d) = None then [''aiSummary''] else [])
     @ (if castString e (d_aiMood d) = None then [''aiMood''] else [])"

definition stored_fields :: "env \<Rightarrow> journal_doc \<Rightarrow> journal \<Rightarrow> journal" where
  "stored_fields e d j =
     j\<lparr> user := d_user d,
        title := trim (opt_text (d_title d)),
        content := opt_text (d_content d),
        mood := opt_text (castString e (d_mood d)),
        aiSummary := opt_text (castString e (d_aiSummary d)),
        aiMood := opt_text (castString e (d_aiMood d)),
        tags := map trim (d_tags d) \<rparr>"

definition blank :: journal where
  "blank = \<lparr> jid = 0, user = 0, title = [], content = [], mood = ''neutral'',
             aiSummary = [], aiMood = [], tags = [], createdAt = 0, updatedAt = 0 \<rparr>"

text \<open>
  \<^verbatim>\<open>Journal.findById(req.params.id)\<close>: the parameter is cast to an id before the query
  is sent, and a text that is no id throws. Otherwise the answer is the document,
  \<^verbatim>\<open>null\<close>, or a store failure.
\<close>

definition findById :: "env \<Rightarrow> db \<Rightarrow> string \<Rightarrow> error + journal option" where
  "findById e s i =
     (case castObjectId e i of
        None \<Rightarrow> Inl (CastError i)
      | Some n \<Rightarrow>
          (case fault s of
             Some m \<Rightarrow> Inl (StoreError m)
           | None \<Rightarrow> Inr (find (\<lambda>j. jid j = n) (docs s))))"

text \<open>\<^verbatim>\<open>Journal.find({ user })\<close>, in insertion order.\<close>

definition find_user :: "db \<Rightarrow> nat \<Rightarrow> error + journal list" where
  "find_user s u =
     (case fault s of
        Some m \<Rightarrow> Inl (StoreError m)
      | None \<Rightarrow> Inr (filter (\<lambda>j. user j = u) (docs s)))"

text \<open>
  \<^verbatim>\<open>Journal.create(doc)\<close>: validation precedes the write; a new document gets a fresh
  id and both timestamps.
\<close>

definition Journal_create :: "env \<Rightarrow> db \<Rightarrow> int \<Rightarrow> journal_doc \<Rightarrow> (error + journal) \<times> db" where
  "Journal_create e s now d =
     (if failing_paths e d \<noteq> [] then (Inl (ValidationError (failing_paths e d)), s)
      else case fault s of
             Some m \<Rightarrow> (Inl (StoreError m), s)
           | None \<Rightarrow>
               (let j = stored_fields e d (blank\<lparr> jid := next_id s, createdAt := now, updatedAt := now \<rparr>)
                in (Inr j, s\<lparr> docs := docs s @ [j], next_id := Suc (next_id s) \<rparr>)))"

text \<open>
  \<^verbatim>\<open>journal.save()\<close> on a document that was loaded as \<open>j\<close> and assigned the fields
  \<open>d\<close>: validation of the document, then the stored document is replaced and
  \<^verbatim>\<open>updatedAt\<close> refreshed. A rejected save leaves the store as it was.
\<close>

definition journal_save :: "env \<Rightarrow> db \<Rightarrow> int \<Rightarrow> journal \<Rightarrow> journal_doc \<Rightarrow> (error + journal) \<times> db" where
  "journal_save e s now j d =
     (if failing_paths e d \<noteq> [] then (Inl (ValidationError (failing_paths e d)), s)
      else case fault s of
             Some m \<Rightarrow> (Inl (StoreError m), s)
           | None \<Rightarrow>
               (let j' = stored_fields e d (j\<lparr> updatedAt := now \<rparr>)
                in (Inr j', s\<lparr> docs := map (\<lambda>x. if jid x = jid j then j' else x) (docs s) \<rparr>)))"

text \<open>\<^verbatim>\<open>journal.deleteOne()\<close>.\<close>

definition journal_deleteOne :: "db \<Rightarrow> journal \<Rightarrow> (error + unit) \<times> db" where
  "journal_deleteOne s j =
     (case fault s of
        Some m \<Rightarrow> (Inl (StoreError m), s)
      | None \<Rightarrow> (Inr (), s\<lparr> docs := filter (\<lambda>x. jid x \<noteq> jid j) (docs s) \<rparr>))"

section \<open>The CRUD handlers\<close>

text \<open>
  A request body after \<^verbatim>\<open>express.json()\<close>: each of the three fields is absent or, as
  the client sends them, a string (a list of strings for the tags).
\<close>

record request =
  req_title :: "string option"
  req_content :: "string option"
  req_tags :: "string list option"

datatype body =
    JournalBody journal
  | Message string
  | ErrorMessage error
  | StreakBody nat
  | StatsBody "(int \<times> nat) list"
  | ChallengeBody bool string nat

text \<open>
  What a handler leaves behind: the HTTP status and body it sent, the store, and the
  prompts it sent to the provider.
\<close>

record outcome =
  status :: nat
  sent :: body
  store :: db
  prompts :: "string list"

definition reply :: "nat \<Rightarrow> body \<Rightarrow> db \<Rightarrow> string list \<Rightarrow> outcome" where
  "reply c b s ps = \<lparr> status = c, sent = b, store = s, prompts = ps \<rparr>"

text \<open>Truthiness of an optional string, and \<^verbatim>\<open>x || y\<close>: absent and empty are falsy.\<close>

definition present :: "string option \<Rightarrow> bool" where
  "present x = (x \<noteq> None \<and> x \<noteq> Some [])"

definition or_else :: "string option \<Rightarrow> string \<Rightarrow> string" where
  "or_else x y = (case x of None \<Rightarrow> y | Some v \<Rightarrow> if v = [] then y else v)"


text \<open>
  \<^verbatim>\<open>POST /api/journals\<close>. Both revisions have the same handler; \<open>analyze\<close> is the
  \<^verbatim>\<open>analyzeWithAI\<close> of the revision. \<open>create_doc\<close> is the object literal handed to
  \<^verbatim>\<open>Journal.create\<close>.
\<close>

definition create_doc :: "nat \<Rightarrow> request \<Rightarrow> analysis \<Rightarrow> journal_doc" where
  "create_doc uid r aiAnalysis =
     \<lparr> d_user = uid, d_title = req_title r, d_content = req_content r,
       d_tags = (case req_tags r of None \<Rightarrow> [] | Some t \<Rightarrow> t),
       d_aiSummary = a_summary aiAnalysis,
       d_aiMood = a_mood aiAnalysis,
       d_mood = a_mood aiAnalysis \<rparr>"

definition post_journal ::
  "(string option \<Rightarrow> string list \<times> analysis) \<Rightarrow> env \<Rightarrow> db \<Rightarrow> int \<Rightarrow> nat \<Rightarrow> request \<Rightarrow> outcome" where
  "post_journal analyze e s now uid r =
     (let (ps, aiAnalysis) = analyze (req_content r) in
      case Journal_create e s now (create_doc uid r aiAnalysis) of
        (Inl err, s') \<Rightarrow> reply 500 (ErrorMessage err) s' ps
      | (Inr j, s') \<Rightarrow> reply 201 (JournalBody j) s' ps)"

text \<open>
  \<^verbatim>\<open>PUT /api/journals/:id\<close>. \<open>reanalyze\<close> is the test that guards the call of
  \<^verbatim>\<open>analyzeWithAI\<close>, \<open>update_doc\<close> the six assignments before \<^verbatim>\<open>journal.save()\<close>.
\<close>

definition reanalyze :: "journal \<Rightarrow> request \<Rightarrow> bool" where
  "reanalyze j r = (present (req_content r) \<and> req_content r \<noteq> Some (content j))"

definition update_doc :: "journal \<Rightarrow> request \<Rightarrow> analysis \<Rightarrow> journal_doc" where
  "update_doc j r aiAnalysis =
     \<lparr> d_user = user j,
       d_title = Some (or_else (req_title r) (title j)),
       d_content = Some (or_else (req_content r) (content j)),
       d_tags = (case req_tags r of None \<Rightarrow> tags j | Some t \<Rightarrow> t),
       d_aiSummary = a_summary aiAnalysis,
       d_aiMood = a_mood aiAnalysis,
       d_mood = a_mood aiAnalysis \<rparr>"

definition put_journal ::
  "(string option \<Rightarrow> string list \<times> analysis) \<Rightarrow> env \<Rightarrow> db \<Rightarrow> int \<Rightarrow> nat \<Rightarrow> string \<Rightarrow> request \<Rightarrow> outcome" where
  "put_journal analyze e s now uid i r =
     (case findById e s i of
        Inl err \<Rightarrow> reply 500 (ErrorMessage err) s []
      | Inr None \<Rightarrow> reply 404 (Message ''Journal not found'') s []
      | Inr (Some j) \<Rightarrow>
          if user j \<noteq> uid then reply 403 (Message ''Not authorized'') s []
          else
            (let (ps, aiAnalysis) =
                   (if reanalyze j r then analyze (req_content r)
                    else ([], \<lparr> a_summary = JStr (aiSummary j), a_mood = JStr (aiMood j) \<rparr>))
             in case journal_save e s now j (update_doc j r aiAnalysis) of
                  (Inl err, s') \<Rightarrow> reply 500 (ErrorMessage err) s' ps
                | (Inr j', s') \<Rightarrow> reply 200 (JournalBody j') s' ps))"

text \<open>\<^verbatim>\<open>DELETE /api/journals/:id\<close>.\<close>

definition delete_journal :: "env \<Rightarrow> db \<Rightarrow> nat \<Rightarrow> string \<Rightarrow> outcome" where
  "delete_journal e s uid i =
     (case findById e s i of
        Inl err \<Rightarrow> reply 500 (ErrorMessage err) s []
      | Inr None \<Rightarrow> reply 404 (Message ''Journal not found'') s []
      | Inr (Some j) \<Rightarrow>
          if user j \<noteq> uid then reply 403 (Message ''Not authorized'') s []
          else
            (case journal_deleteOne s j of
               (Inl err, s') \<Rightarrow> reply 500 (ErrorMessage err) s' []
             | (Inr _, s') \<Rightarrow> reply 200 (Message ''Journal deleted'') s' []))"

text \<open>
  \<^verbatim>\<open>POST /api/journals/challenge/submit\<close>. The first revision reads \<^verbatim>\<open>answer\<close> from
  the body and the date, and uses neither; the later one reads nothing.
\<close>

definition challenge_submit :: "db \<Rightarrow> int \<Rightarrow> nat \<Rightarrow> string option \<Rightarrow> outcome" where
  "challenge_submit s now uid ans =
     (let answer = ans; today = now in
      reply 200 (ChallengeBody True ''Challenge completed!'' 10) s [])"

definition challenge_submit_p3 :: "db \<Rightarrow> int \<Rightarrow> nat \<Rightarrow> string option \<Rightarrow> outcome" where
  "challenge_submit_p3 s now uid ans =
     reply 200 (ChallengeBody True ''Challenge completed!'' 10) s []"

section \<open>Statistics\<close>

text \<open>
  Calendar days. The server runs in UTC: \<^verbatim>\<open>setHours(0, 0, 0, 0)\<close> rounds a time down
  to a multiple of a day, and the date part of \<^verbatim>\<open>toISOString()\<close> (likewise the
  client's \<^verbatim>\<open>toDateString()\<close>) is identified with the number of the day.
\<close>

definition DAY :: int where
  "DAY = 1000 * 60 * 60 * 24"

definition midnight :: "int \<Rightarrow> int" where
  "midnight t = t - t mod DAY"

definition day_of :: "int \<Rightarrow> int" where
  "day_of t = t div DAY"

text \<open>\<^verbatim>\<open>.sort({ createdAt: -1 })\<close>.\<close>

definition newest_first :: "journal list \<Rightarrow> journal list" where
  "newest_first js = sort_key (\<lambda>j. - createdAt j) js"

text \<open>\<^verbatim>\<open>stats[date] = (stats[date] || 0) + 1\<close> on an object that keeps insertion order.\<close>

fun bump :: "int \<Rightarrow> (int \<times> nat) list \<Rightarrow> (int \<times> nat) list" where
  "bump k [] = [(k, 1)]"
| "bump k ((k', c) # rest) = (if k = k' then (k', c + 1) # rest else (k', c) # bump k rest)"

text \<open>
  \<^verbatim>\<open>GET /api/journals/stats/weekly\<close>, the same in both revisions:
  \<^verbatim>\<open>createdAt: { $gte: sevenDaysAgo }\<close> with \<^verbatim>\<open>sevenDaysAgo\<close> seven days before now.
\<close>

definition weekly_counts :: "int \<Rightarrow> journal list \<Rightarrow> (int \<times> nat) list" where
  "weekly_counts now js =
     fold (\<lambda>j stats. bump (day_of (createdAt j)) stats)
          (filter (\<lambda>j. createdAt j \<ge> now - 7 * DAY) js) []"

definition stats_weekly :: "db \<Rightarrow> int \<Rightarrow> nat \<Rightarrow> outcome" where
  "stats_weekly s now uid =
     (case find_user s uid of
        Inl err \<Rightarrow> reply 500 (ErrorMessage err) s []
      | Inr js \<Rightarrow> reply 200 (StatsBody (weekly_counts now js)) s [])"

text \<open>
  \<^verbatim>\<open>GET /api/journals/stats/streak\<close> of \<^verbatim>\<open>routes/journal.js\<close>: the loop compares each
  entry with the next one.
\<close>

fun streak_loop :: "journal list \<Rightarrow> nat \<Rightarrow> nat" where
  "streak_loop (current # next # rest) streak =
     (if (midnight (createdAt current) - midnight (createdAt next)) div DAY = 1
      then streak_loop (next # rest) (streak + 1)
      else streak)"
| "streak_loop js streak = streak"

definition streak_of :: "int \<Rightarrow> journal list \<Rightarrow> nat" where
  "streak_of now journals =
     (case journals of
        [] \<Rightarrow> 0
      | lastEntry # _ \<Rightarrow>
          if (midnight now - midnight (createdAt lastEntry)) div DAY > 1 then 0
          else streak_loop journals 1)"

definition stats_streak :: "db \<Rightarrow> int \<Rightarrow> nat \<Rightarrow> outcome" where
  "stats_streak s now uid =
     (case find_user s uid of
        Inl err \<Rightarrow> reply 500 (ErrorMessage err) s []
      | Inr js \<Rightarrow> reply 200 (StreakBody (streak_of now (newest_first js))) s [])"

text \<open>
  The later revision walks a cursor: an entry counts when it is on the cursor's day or
  the day before, and the cursor moves to the day before the entry.
\<close>

fun streak_loop_p3 :: "int \<Rightarrow> journal list \<Rightarrow> nat \<Rightarrow> nat" where
  "streak_loop_p3 cursor [] streak = streak"
| "streak_loop_p3 cursor (j # js) streak =
     (let entryDate = midnight (createdAt j);
          diffDays = (cursor - entryDate) div DAY
      in if diffDays = 0 \<or> diffDays = 1
         then streak_loop_p3 (entryDate - DAY) js (streak + 1)
         else streak)"

definition streak_of_p3 :: "int \<Rightarrow> journal list \<Rightarrow> nat" where
  "streak_of_p3 now journals =
     (if journals = [] then 0 else streak_loop_p3 (midnight now) journals 0)"

definition stats_streak_p3 :: "db \<Rightarrow> int \<Rightarrow> nat \<Rightarrow> outcome" where
  "stats_streak_p3 s now uid =
     (case find_user s uid of
        Inl err \<Rightarrow> reply 500 (ErrorMessage err) s []
      | Inr js \<Rightarrow> reply 200 (StreakBody (streak_of_p3 now (newest_first js))) s [])"

section \<open>The client: streak, achievements, weekly chart (\<^verbatim>\<open>App.jsx\<close>)\<close>

text \<open>\<^verbatim>\<open>calculateStreak\<close> sorts a copy of the loaded journals and runs the first loop.\<close>

definition calculateStreak :: "int \<Rightarrow> journal list \<Rightarrow> nat" where
  "calculateStreak now journals =
     (if journals = [] then 0 else streak_of now (newest_first journals))"

text \<open>
  \<^verbatim>\<open>calculateAchievements\<close> pushes a row for each rule that holds, reading the loaded
  journals and the \<^verbatim>\<open>streak\<close> state. A row is its name and colour (the icon, an emoji,
  is left out).
\<close>

definition hasAllMoods :: "journal list \<Rightarrow> bool" where
  "hasAllMoods journals =
     list_all (\<lambda>m. list_ex (\<lambda>j. mood j = m) journals) [''happy'', ''sad'', ''excited'', ''calm'']"

definition calculateAchievements :: "journal list \<Rightarrow> nat \<Rightarrow> (string \<times> string) list" where
  "calculateAchievements journals streak =
       (if length journals \<ge> 1 then [(''First Entry'', ''blue'')] else [])
     @ (if length journals \<ge> 5 then [(''Getting Started'', ''green'')] else [])
     @ (if length journals \<ge> 10 then [(''Dedicated Writer'', ''purple'')] else [])
     @ (if length journals \<ge> 30 then [(''Journal Master'', ''yellow'')] else [])
     @ (if streak \<ge> 3 then [(''3 Day Streak'', ''orange'')] else [])
     @ (if streak \<ge> 7 then [(''Week Warrior'', ''red'')] else [])
     @ (if streak \<ge> 30 then [(''Monthly Legend'', ''gold'')] else [])
     @ (if hasAllMoods journals then [(''Emotion Explorer'', ''pink'')] else [])"

text \<open>
  \<^verbatim>\<open>weeklyData\<close>: slot \<open>i\<close> of seven is the day \<open>6 - i\<close> days before now and counts the
  loaded journals created on that day.
\<close>

definition weeklyData :: "int \<Rightarrow> journal list \<Rightarrow> nat list" where
  "weeklyData now journals =
     map (\<lambda>i. length (filter (\<lambda>j. day_of (createdAt j) = day_of (now - (6 - int i) * DAY)) journals))
         [0..<7]"

section \<open>Repeated updates\<close>

text \<open>A sequence of update requests against one journal, each at its own time.\<close>

fun put_many ::
  "(string option \<Rightarrow> string list \<times> analysis) \<Rightarrow> env \<Rightarrow> db \<Rightarrow> nat \<Rightarrow> string \<Rightarrow> (int \<times> request) list \<Rightarrow> db" where
  "put_many analyze e s uid i [] = s"
| "put_many analyze e s uid i ((now, r) # rs) =
     put_many analyze e (store (put_journal analyze e s now uid i r)) uid i rs"

section \<open>The stores the program produces\<close>

text \<open>
  Journals are written by the create and update handlers only, and removed by the
  delete handler. A history is a list of such calls, each with the environment it met,
  and of changes in the availability of the store; \<open>run\<close> plays a history from a
  store.
\<close>

datatype call =
    Create "string option \<Rightarrow> string list \<times> analysis" env int nat request
  | Update "string option \<Rightarrow> string list \<times> analysis" env int nat string request
  | Delete env nat string
  | Outage "string option"

fun step :: "db \<Rightarrow> call \<Rightarrow> db" where
  "step s (Create analyze e now uid r) = store (post_journal analyze e s now uid r)"
| "step s (Update analyze e now uid i r) = store (put_journal analyze e s now uid i r)"
| "step s (Delete e uid i) = store (delete_journal e s uid i)"
| "step s (Outage f) = s\<lparr> fault := f \<rparr>"

fun run :: "db \<Rightarrow> call list \<Rightarrow> db" where
  "run s [] = s"
| "run s (c # cs) = run (step s c) cs"

text \<open>Every stored journal has its \<^verbatim>\<open>mood\<close> equal to its \<^verbatim>\<open>aiMood\<close>.\<close>

definition consistent :: "db \<Rightarrow> bool" where
  "consistent s = list_all (\<lambda>j. mood j = aiMood j) (docs s)"

section \<open>The streak as the specification words it\<close>

text \<open>
  The walk over the distinct calendar days of the entries, most recent first: the
  first day counts, each further day counts when it is exactly one day before the day
  counted last, and the walk stops at the first gap.
\<close>

fun spec_walk :: "int \<Rightarrow> int list \<Rightarrow> nat" where
  "spec_walk prev [] = 0"
| "spec_walk prev (d # ds) = (if prev - d = 1 then Suc (spec_walk d ds) else 0)"

definition spec_streak :: "int \<Rightarrow> journal list \<Rightarrow> nat" where
  "spec_streak now journals =
     (case remdups_adj (map (\<lambda>j. day_of (createdAt j)) journals) of
        [] \<Rightarrow> 0
      | d # ds \<Rightarrow> if day_of now - d \<ge> 2 then 0 else Suc (spec_walk d ds))"

section \<open>Concrete inputs\<close>

text \<open>Five entries that cover the four moods of the last rule, and five that do not.\<close>

definition five_moods :: "journal list" where
  "five_moods = map (\<lambda>m. blank\<lparr> mood := m \<rparr>) [''happy'', ''sad'', ''excited'', ''calm'', ''neutral'']"

definition five_plain :: "journal list" where
  "five_plain = replicate 5 blank"

text \<open>
  Four answers of the provider, and a \<^verbatim>\<open>JSON.parse\<close> that agrees with the runtime's on
  them: three are JSON objects, one of them without a mood, the fourth is not JSON and
  has no brace in it.
\<close>

definition text_happy :: string where
  \<open>text_happy = ''{"summary":"A good day","mood":"happy"}''\<close>

definition text_ecstatic :: string where
  \<open>text_ecstatic = ''{"summary":"A big day","mood":"ecstatic"}''\<close>

definition text_moodless :: string where
  \<open>text_moodless = ''{"summary":"A big day"}''\<close>

definition text_prose :: string where
  "text_prose = ''Sorry, I cannot help with that.''"

definition parse_sample :: "string \<Rightarrow> json option" where
  "parse_sample t =
     (if t = text_happy then Some (JObj [(''summary'', JStr ''A good day''), (''mood'', JStr ''happy'')])
      else if t = text_ecstatic then Some (JObj [(''summary'', JStr ''A big day''), (''mood'', JStr ''ecstatic'')])
      else if t = text_moodless then Some (JObj [(''summary'', JStr ''A big day'')])
      else None)"

text \<open>
  A reading of request ids: 24 hexadecimal digits are the id of that value, any other
  text is no id.
\<close>

definition hex_digit :: "char \<Rightarrow> nat option" where
  "hex_digit c = map_of (zip ''0123456789abcdef'' [0..<16] @ zip ''ABCDEF'' [10..<16]) c"

fun hex_value :: "nat \<Rightarrow> string \<Rightarrow> nat option" where
  "hex_value acc [] = Some acc"
| "hex_value acc (c # cs) =
     (case hex_digit c of None \<Rightarrow> None | Some d \<Rightarrow> hex_value (16 * acc + d) cs)"

definition objectId_sample :: "string \<Rightarrow> nat option" where
  "objectId_sample i = (if length i = 24 then hex_value 0 i else None)"

definition id0 :: string where
  "id0 = ''000000000000000000000000''"

definition id7 :: string where
  "id7 = ''000000000000000000000007''"

definition id8 :: string where
  "id8 = ''000000000000000000000008''"

definition env_answering :: "string \<Rightarrow> env" where
  "env_answering t =
     \<lparr> JSON_parse = parse_sample,
       generateContent = (\<lambda>p. Resolves (ResResponse (RespText (Some t)))),
       cast_other = (\<lambda>v. None),
       castObjectId = objectId_sample \<rparr>"

definition genai_ready :: genai where
  "genai_ready = \<lparr> cached = False, api_key = Some ''key'', ctor_throws = False \<rparr>"

text \<open>A store with one journal of user 1, written on day 10, and a store without any.\<close>

definition entry :: journal where
  "entry = \<lparr> jid = 7, user = 1, title = ''Monday'', content = ''A walk in the park'',
             mood = ''calm'', aiSummary = ''A walk.'', aiMood = ''calm'', tags = [],
             createdAt = 10 * 86400000, updatedAt = 10 * 86400000 \<rparr>"

definition db_one :: db where
  "db_one = \<lparr> docs = [entry], challenges = [], next_id = 8, fault = None \<rparr>"

definition db_empty :: db where
  "db_empty = \<lparr> docs = [], challenges = [], next_id = 0, fault = None \<rparr>"

definition no_change :: request where
  "no_change = \<lparr> req_title = Some ''Tuesday'', req_content = None, req_tags = None \<rparr>"

text \<open>Entries by the time they were written.\<close>

definition written :: "int \<Rightarrow> journal" where
  "written t = blank\<lparr> createdAt := t, updatedAt := t \<rparr>"

text \<open>A provider that raises, a store that fails, and two create requests.\<close>

definition env_rejecting :: env where
  "env_rejecting =
     \<lparr> JSON_parse = parse_sample, generateContent = (\<lambda>p. Rejects), cast_other = (\<lambda>v. None),
       castObjectId = objectId_sample \<rparr>"

definition db_down :: db where
  "db_down = \<lparr> docs = [], challenges = [], next_id = 0, fault = Some ''connection lost'' \<rparr>"

definition req_ok :: request where
  "req_ok = \<lparr> req_title = Some ''Sunday'', req_content = Some ''Slept in.'', req_tags = None \<rparr>"

definition req_untitled :: request where
  "req_untitled = \<lparr> req_title = None, req_content = Some ''Slept in.'', req_tags = None \<rparr>"

definition req_edit :: request where
  "req_edit = \<lparr> req_title = None, req_content = Some ''A run in the park'', req_tags = None \<rparr>"

text \<open>A history of one call: user 1 creates a journal at time 5 in a store without any.\<close>

definition first_post :: "call list" where
  "first_post =
     [Create (analyzeWithAI (env_answering text_happy)) (env_answering text_happy) 5 1 req_ok]"

text \<open>The journal that this call stores.\<close>

definition first_entry :: journal where
  "first_entry = stored_fields (env_answering text_happy)
          (create_doc 1 req_ok \<lparr> a_summary = JStr ''A good day'', a_mood = JStr ''happy'' \<rparr>)
          (blank\<lparr> jid := 0, createdAt := 5, updatedAt := 5 \<rparr>)"

text \<open>
  What an update without a change of content keeps of a journal: its owner, its
  content and the three enrichment fields.
\<close>

definition kept :: "journal \<Rightarrow> journal \<Rightarrow> bool" where
  "kept j j' = (user j' = user j \<and> content j' = content j \<and> aiSummary j' = aiSummary j
     \<and> aiMood j' = aiMood j \<and> mood j' = mood j)"

text \<open>
  Noon of day 10 as the present, and two lists of entries, most recent first: two
  entries on day 10 followed by one on day 9, and an entry on day 10 followed by one
  on day 8.
\<close>

definition noon10 :: int where
  "noon10 = 10 * DAY + 12 * 3600000"

definition twice_today :: "journal list" where
  "twice_today = [written (10 * DAY + 3 * 3600000), written (10 * DAY + 3600000),
                  written (9 * DAY + 5 * 3600000)]"

definition skipped_day :: "journal list" where
  "skipped_day = [written (10 * DAY + 3 * 3600000), written (8 * DAY + 3600000)]"

definition db_twice :: db where
  "db_twice = \<lparr> docs = twice_today, challenges = [], next_id = 1, fault = None \<rparr>"

section \<open>What the handlers answer\<close>



lemma put_status:
  "status (put_journal analyze e s now uid i r) =
     (case findById e s i of Inl _ \<Rightarrow> 500 | Inr None \<Rightarrow> 404
      | Inr (Some j) \<Rightarrow> if user j \<noteq> uid then 403
          else (case fst (journal_save e s now j
                    (update_doc j r (if reanalyze j r then snd (analyze (req_content r))
                       else \<lparr> a_summary = JStr (aiSummary j), a_mood = JStr (aiMood j) \<rparr>))) of
                  Inl _ \<Rightarrow> 500 | Inr _ \<Rightarrow> 200))"
  by (simp add: put_journal_def reply_def split: sum.splits option.splits prod.splits)

lemma post_status:
  "status (post_journal analyze e s now uid r) =
     (case fst (Journal_create e s now (create_doc uid r (snd (analyze (req_content r))))) of
        Inl _ \<Rightarrow> 500 | Inr _ \<Rightarrow> 201)"
  by (simp add: post_journal_def reply_def split: sum.splits prod.splits)



lemma create_rejected:
  "failing_paths e d \<noteq> [] \<Longrightarrow>
     Journal_create e s now d = (Inl (ValidationError (failing_paths e d)), s)"
  by (simp add: Journal_create_def)

lemma save_rejected:
  "failing_paths e d \<noteq> [] \<Longrightarrow>
     journal_save e s now j d = (Inl (ValidationError (failing_paths e d)), s)"
  by (simp add: journal_save_def)

lemma post_rejected:
  assumes "failing_paths e (create_doc uid r (snd (analyze (req_content r)))) \<noteq> []"
  shows "post_journal analyze e s now uid r =
     reply 500
       (ErrorMessage (ValidationError
          (failing_paths e (create_doc uid r (snd (analyze (req_content r)))))))
       s (fst (analyze (req_content r)))"
  using assms by (simp add: post_journal_def case_prod_beta create_rejected)

lemma put_rejected:
  assumes "findById e s i = Inr (Some j)" "user j = uid" "reanalyze j r"
    "failing_paths e (update_doc j r (snd (analyze (req_content r)))) \<noteq> []"
  shows "put_journal analyze e s now uid i r =
     reply 500
       (ErrorMessage (ValidationError
          (failing_paths e (update_doc j r (snd (analyze (req_content r)))))))
       s (fst (analyze (req_content r)))"
  using assms by (simp add: put_journal_def case_prod_beta save_rejected)

lemma mood_fails:
  "d_mood d = JStr m \<Longrightarrow> m \<notin> set moods \<Longrightarrow> ''mood'' \<in> set (failing_paths e d)"
  by (simp add: failing_paths_def castString_def)

lemma title_fails:
  "\<not> present (d_title d) \<Longrightarrow> ''title'' \<in> set (failing_paths e d)"
  by (auto simp add: failing_paths_def present_def trim_def split: option.splits)

lemma content_fails:
  "\<not> present (d_content d) \<Longrightarrow> ''content'' \<in> set (failing_paths e d)"
  by (auto simp add: failing_paths_def present_def split: option.splits)

section \<open>Facts about the concrete inputs and the store\<close>

lemma ev_simps:
  "generateContent (env_answering t) p = Resolves (ResResponse (RespText (Some t)))"
  "JSON_parse (env_answering t) = parse_sample"
  "cast_other (env_answering t) v = None"
  "generateContent env_rejecting p = Rejects"
  "JSON_parse env_rejecting = parse_sample"
  "cast_other env_rejecting v = None"
  "castObjectId (env_answering t) = objectId_sample"
  "castObjectId env_rejecting = objectId_sample"
  by (simp_all add: env_answering_def env_rejecting_def)

lemma hex_digits: "hex_digit CHR ''0'' = Some 0" "hex_digit CHR ''7'' = Some 7"
  "hex_digit CHR ''8'' = Some 8"
  by (simp_all add: hex_digit_def upt_rec)

lemma sample_ids: "objectId_sample id0 = Some 0" "objectId_sample id7 = Some 7"
  "objectId_sample id8 = Some 8" "objectId_sample ''not-an-id'' = None"
  by (simp_all add: objectId_sample_def id0_def id7_def id8_def hex_digits)

lemma parse_prose: "parse_sample text_prose = None"
  by (simp add: parse_sample_def text_prose_def text_happy_def text_ecstatic_def
      text_moodless_def)

lemma parse_moodless: "parse_sample text_moodless = Some (JObj [(''summary'', JStr ''A big day'')])"
  by (simp add: parse_sample_def text_happy_def text_ecstatic_def text_moodless_def)

lemma parse_happy: "parse_sample text_happy = Some (JObj [(''summary'', JStr ''A good day''), (''mood'', JStr ''happy'')])"
  by (simp add: parse_sample_def)

lemma parse_ecstatic: "parse_sample text_ecstatic = Some (JObj [(''summary'', JStr ''A big day''), (''mood'', JStr ''ecstatic'')])"
  by (simp add: parse_sample_def text_happy_def text_ecstatic_def)

lemma braces_prose: "match_braces text_prose = None"
  by (simp add: match_braces_def text_prose_def)

lemma ready: "fst (initGenAI genai_ready)"
  by (simp add: initGenAI_def genai_ready_def)

lemma save_accepted:
  "failing_paths e d = [] \<Longrightarrow> fault s = None \<Longrightarrow>
     journal_save e s now j d =
       (Inr (stored_fields e d (j\<lparr> updatedAt := now \<rparr>)),
        s\<lparr> docs := map (\<lambda>x. if jid x = jid j then stored_fields e d (j\<lparr> updatedAt := now \<rparr>) else x) (docs s) \<rparr>)"
  by (simp add: journal_save_def Let_def)

lemma create_accepted:
  "failing_paths e d = [] \<Longrightarrow> fault s = None \<Longrightarrow>
     fst (Journal_create e s now d) =
       Inr (stored_fields e d (blank\<lparr> jid := next_id s, createdAt := now, updatedAt := now \<rparr>))"
  by (simp add: Journal_create_def Let_def)

lemma create_fault:
  "failing_paths e d = [] \<Longrightarrow> fault s = Some m \<Longrightarrow>
     Journal_create e s now d = (Inl (StoreError m), s)"
  by (simp add: Journal_create_def)

lemma find_entry: "findById (env_answering t) db_one id7 = Inr (Some entry)"
  by (simp add: findById_def ev_simps sample_ids db_one_def entry_def)

lemma find_entry_rejecting: "findById env_rejecting db_one id7 = Inr (Some entry)"
  by (simp add: findById_def ev_simps sample_ids db_one_def entry_def)

lemma analyze_prompts: "fst (analyzeWithAI e c) = [prompt c]"
  by (simp add: analyzeWithAI_def Let_def)

lemma analyze_happy:
  "snd (analyzeWithAI (env_answering text_happy) c)
     = \<lparr> a_summary = JStr ''A good day'', a_mood = JStr ''happy'' \<rparr>"
  by (simp add: analyzeWithAI_def Let_def ev_simps parse_happy pick_def or_default_def)

lemma analyze_ecstatic:
  "snd (analyzeWithAI (env_answering text_ecstatic) c)
     = \<lparr> a_summary = JStr ''A big day'', a_mood = JStr ''ecstatic'' \<rparr>"
  by (simp add: analyzeWithAI_def Let_def ev_simps parse_ecstatic pick_def or_default_def)

lemma happy_nonempty: "text_happy \<noteq> []"
  by (simp add: text_happy_def)

lemma analyze_p3_blank:
  "analyzeWithAI_p3 (env_answering text_happy) genai_ready (Some ''   '')
     = ([prompt_p3 (Some ''   '')], \<lparr> a_summary = JStr ''A good day'', a_mood = JStr ''happy'' \<rparr>)"
  by (simp add: analyzeWithAI_p3_def Let_def ready ev_simps decode_p3_def parse_happy pick_def
      or_default_def happy_nonempty)

lemma create_doc_fields:
  "d_title (create_doc uid r a) = req_title r" "d_content (create_doc uid r a) = req_content r"
  "d_mood (create_doc uid r a) = a_mood a"
  by (simp_all add: create_doc_def)

lemma update_doc_fields:
  "d_mood (update_doc j r a) = a_mood a"
  by (simp_all add: update_doc_def)

lemma pick_keeps_mood:
  assumes "get_prop parsed ''mood'' = Inr (Some (JStr m))" "m \<noteq> []"
  shows "a_mood (pick parsed) = JStr m"
  using assms by (cases parsed) (simp_all add: pick_def or_default_def)

lemma ecstatic_out: "''ecstatic'' \<notin> set moods"
  by (simp add: moods_def)

lemma reanalyze_edit: "reanalyze entry req_edit"
  by (simp add: reanalyze_def present_def req_edit_def entry_def)

section \<open>Ownership\<close>




section \<open>Enrichment never aborts a create or an update\<close>

lemma analyze_errors:
  assumes "\<forall>t. generateContent e (prompt c) = Resolves (ResResponse (RespText (Some t)))
             \<longrightarrow> JSON_parse e t = None \<or> JSON_parse e t = Some JNull"
  shows "snd (analyzeWithAI e c) = fallback"
  using assms
  by (auto simp add: analyzeWithAI_def Let_def pick_def
      split: gen_outcome.splits sdk_result.splits response_shape.splits option.splits)

lemma analyze_p3_errors:
  assumes "generateContent e (prompt_p3 c) = Rejects
     \<or> (\<exists>res. generateContent e (prompt_p3 c) = Resolves res \<and> extract_text res = None)"
  shows "snd (analyzeWithAI_p3 e g c) = fallback"
  using assms
  by (auto simp add: analyzeWithAI_p3_def Let_def)

lemma analyze_p3_undecodable:
  assumes "fst (initGenAI g)" "present c"
    "generateContent e (prompt_p3 c) = Resolves res" "extract_text res = Some t"
    "JSON_parse e t = None" "\<forall>m. match_braces t = Some m \<longrightarrow> JSON_parse e m = None"
  shows "snd (analyzeWithAI_p3 e g c) =
     \<lparr> a_summary = JStr ''No summary available'', a_mood = JStr ''neutral'' \<rparr>"
  using assms
  by (auto simp add: analyzeWithAI_p3_def Let_def present_def decode_p3_def pick_def
       or_default_def split: option.splits)

lemma prose_undecodable:
  "snd (analyzeWithAI_p3 (env_answering text_prose) genai_ready (Some ''Slept in.''))
     = \<lparr> a_summary = JStr ''No summary available'', a_mood = JStr ''neutral'' \<rparr>"
  by (simp add: analyzeWithAI_p3_def env_answering_def genai_ready_def initGenAI_def Let_def
      decode_p3_def parse_sample_def text_prose_def text_happy_def text_ecstatic_def
      text_moodless_def match_braces_def pick_def or_default_def)

text \<open>
  Claim C1, as stated, in the later revision at an answer of the provider that is not
  JSON and holds no brace: both decoding attempts fail, and the function returns the
  summary "No summary available", not the fallback value.
\<close>

theorem undecodable_answer_counterexample:
  "JSON_parse (env_answering text_prose) text_prose = None
   \<and> match_braces text_prose = None
   \<and> snd (analyzeWithAI_p3 (env_answering text_prose) genai_ready (Some ''Slept in.''))
       = \<lparr> a_summary = JStr ''No summary available'', a_mood = JStr ''neutral'' \<rparr>
   \<and> snd (analyzeWithAI_p3 (env_answering text_prose) genai_ready (Some ''Slept in.''))
       \<noteq> fallback"
proof -
  have "JSON_parse (env_answering text_prose) text_prose = None"
    by (simp add: env_answering_def parse_sample_def text_prose_def text_happy_def
        text_ecstatic_def text_moodless_def)
  moreover have "match_braces text_prose = None"
    by (simp add: match_braces_def text_prose_def)
  moreover have "\<lparr> a_summary = JStr ''No summary available'', a_mood = JStr ''neutral'' \<rparr>
      \<noteq> fallback"
    by (simp add: fallback_def)
  ultimately show ?thesis
    by (simp add: prose_undecodable)
qed

text \<open>
  Claim C1, amended: no error of the enrichment step aborts a create or an update, and
  \<^verbatim>\<open>analyzeWithAI\<close> always returns a value. In \<^verbatim>\<open>routes/journal.js\<close> it returns the
  fallback value whenever the provider call raises, the result has no working
  \<^verbatim>\<open>response.text()\<close>, or the text is undecodable or decodes to \<^verbatim>\<open>null\<close>. In the later
  revision it returns the fallback value when the call or \<^verbatim>\<open>text()\<close> raises, and the
  value with summary "No summary available" and mood neutral when both decoding
  attempts fail. Create therefore always reaches \<^verbatim>\<open>Journal.create\<close> and answers 500
  exactly when the store rejects the write (201 otherwise); update, once the journal
  is found and owned by the caller, always reaches \<^verbatim>\<open>save\<close> and answers 500 exactly
  when the store rejects the write (200 otherwise).
\<close>

theorem enrichment_never_aborts:
  "((\<forall>t. generateContent e (prompt c) = Resolves (ResResponse (RespText (Some t)))
          \<longrightarrow> JSON_parse e t = None \<or> JSON_parse e t = Some JNull)
      \<longrightarrow> snd (analyzeWithAI e c) = fallback)
   \<and> (generateContent e (prompt_p3 c) = Rejects
        \<or> (\<exists>res. generateContent e (prompt_p3 c) = Resolves res \<and> extract_text res = None)
      \<longrightarrow> snd (analyzeWithAI_p3 e g c) = fallback)
   \<and> (fst (initGenAI g) \<and> present c
        \<and> generateContent e (prompt_p3 c) = Resolves res \<and> extract_text res = Some t
        \<and> JSON_parse e t = None \<and> (\<forall>m. match_braces t = Some m \<longrightarrow> JSON_parse e m = None)
      \<longrightarrow> snd (analyzeWithAI_p3 e g c)
            = \<lparr> a_summary = JStr ''No summary available'', a_mood = JStr ''neutral'' \<rparr>)
   \<and> status (post_journal analyze e s now uid r) =
       (case fst (Journal_create e s now (create_doc uid r (snd (analyze (req_content r))))) of
          Inl _ \<Rightarrow> 500 | Inr _ \<Rightarrow> 201)
   \<and> (findById e s i = Inr (Some j) \<and> user j = uid \<longrightarrow>
        status (put_journal analyze e s now uid i r) =
          (case fst (journal_save e s now j
                  (update_doc j r (if reanalyze j r then snd (analyze (req_content r))
                     else \<lparr> a_summary = JStr (aiSummary j), a_mood = JStr (aiMood j) \<rparr>))) of
             Inl _ \<Rightarrow> 500 | Inr _ \<Rightarrow> 200))"
proof (intro conjI impI)
  assume "\<forall>t. generateContent e (prompt c) = Resolves (ResResponse (RespText (Some t)))
          \<longrightarrow> JSON_parse e t = None \<or> JSON_parse e t = Some JNull"
  then show "snd (analyzeWithAI e c) = fallback"
    by (rule analyze_errors)
next
  assume "generateContent e (prompt_p3 c) = Rejects
        \<or> (\<exists>res. generateContent e (prompt_p3 c) = Resolves res \<and> extract_text res = None)"
  then show "snd (analyzeWithAI_p3 e g c) = fallback"
    by (rule analyze_p3_errors)
next
  assume "fst (initGenAI g) \<and> present c
        \<and> generateContent e (prompt_p3 c) = Resolves res \<and> extract_text res = Some t
        \<and> JSON_parse e t = None \<and> (\<forall>m. match_braces t = Some m \<longrightarrow> JSON_parse e m = None)"
  then show "snd (analyzeWithAI_p3 e g c)
            = \<lparr> a_summary = JStr ''No summary available'', a_mood = JStr ''neutral'' \<rparr>"
    by (intro analyze_p3_undecodable [of g c e res t]) simp_all
next
  show "status (post_journal analyze e s now uid r) =
       (case fst (Journal_create e s now (create_doc uid r (snd (analyze (req_content r))))) of
          Inl _ \<Rightarrow> 500 | Inr _ \<Rightarrow> 201)"
    by (rule post_status)
next
  assume "findById e s i = Inr (Some j) \<and> user j = uid"
  then show "status (put_journal analyze e s now uid i r) =
          (case fst (journal_save e s now j
                  (update_doc j r (if reanalyze j r then snd (analyze (req_content r))
                     else \<lparr> a_summary = JStr (aiSummary j), a_mood = JStr (aiMood j) \<rparr>))) of
             Inl _ \<Rightarrow> 500 | Inr _ \<Rightarrow> 200)"
    by (simp add: put_status)
qed



text \<open>
  The amended claim C1 at a provider that raises, at one whose answer is not JSON, and
  at a store that is up or down.
\<close>

theorem enrichment_never_aborts_witness:
  "snd (analyzeWithAI env_rejecting (Some ''Slept in.'')) = fallback
   \<and> snd (analyzeWithAI (env_answering text_prose) (Some ''Slept in.'')) = fallback
   \<and> snd (analyzeWithAI_p3 env_rejecting genai_ready (Some ''Slept in.'')) = fallback
   \<and> snd (analyzeWithAI_p3 (env_answering text_prose) genai_ready (Some ''Slept in.''))
       = \<lparr> a_summary = JStr ''No summary available'', a_mood = JStr ''neutral'' \<rparr>
   \<and> findById env_rejecting db_one id7 = Inr (Some entry) \<and> user entry = 1
   \<and> status (put_journal (analyzeWithAI env_rejecting) env_rejecting db_one 0 1 id7 req_edit) = 200
   \<and> status (post_journal (analyzeWithAI env_rejecting) env_rejecting db_empty 0 1 req_ok) = 201
   \<and> status (post_journal (analyzeWithAI env_rejecting) env_rejecting db_down 0 1 req_ok) = 500"
proof -
  note a = enrichment_never_aborts [where e = env_rejecting and c = "Some ''Slept in.''"
      and g = genai_ready and analyze = "analyzeWithAI env_rejecting" and s = db_one and now = 0
      and uid = 1 and r = req_edit and i = id7 and j = entry]
  note b = enrichment_never_aborts [where e = "env_answering text_prose" and c = "Some ''Slept in.''"
      and g = genai_ready and res = "ResResponse (RespText (Some text_prose))" and t = text_prose]
  have 1: "snd (analyzeWithAI env_rejecting (Some ''Slept in.'')) = fallback"
    using a by (simp add: ev_simps)
  have 2: "snd (analyzeWithAI (env_answering text_prose) (Some ''Slept in.'')) = fallback"
    using b by (simp add: ev_simps parse_prose)
  have 3: "snd (analyzeWithAI_p3 env_rejecting genai_ready (Some ''Slept in.'')) = fallback"
    using a by (simp add: ev_simps)
  have 4: "snd (analyzeWithAI_p3 (env_answering text_prose) genai_ready (Some ''Slept in.''))
       = \<lparr> a_summary = JStr ''No summary available'', a_mood = JStr ''neutral'' \<rparr>"
    using b by (simp add: ev_simps parse_prose braces_prose ready present_def)
  have 5: "findById env_rejecting db_one id7 = Inr (Some entry) \<and> user entry = 1"
    by (simp add: find_entry_rejecting entry_def)
  have an: "snd (analyzeWithAI env_rejecting c) = fallback" for c
    by (simp add: analyzeWithAI_def ev_simps)
  have re: "reanalyze entry req_edit"
    by (simp add: reanalyze_def present_def req_edit_def entry_def)
  have "status (put_journal (analyzeWithAI env_rejecting) env_rejecting db_one 0 1 id7 req_edit) =
      (case fst (journal_save env_rejecting db_one 0 entry (update_doc entry req_edit fallback)) of
         Inl _ \<Rightarrow> 500 | Inr _ \<Rightarrow> 200)"
    using a 5 re by (simp add: an)
  moreover have "failing_paths env_rejecting (update_doc entry req_edit fallback) = []"
    by (simp add: failing_paths_def update_doc_def or_else_def castString_def fallback_def
        moods_def trim_def is_ws_def req_edit_def entry_def)
  ultimately have 6:
    "status (put_journal (analyzeWithAI env_rejecting) env_rejecting db_one 0 1 id7 req_edit) = 200"
    by (simp add: save_accepted db_one_def)
  have ok: "failing_paths env_rejecting (create_doc 1 req_ok fallback) = []"
    by (simp add: failing_paths_def create_doc_def castString_def fallback_def
        moods_def trim_def is_ws_def req_ok_def)
  have "status (post_journal (analyzeWithAI env_rejecting) env_rejecting db_empty 0 1 req_ok) =
      (case fst (Journal_create env_rejecting db_empty 0 (create_doc 1 req_ok fallback)) of
         Inl _ \<Rightarrow> 500 | Inr _ \<Rightarrow> 201)"
    using enrichment_never_aborts [where e = env_rejecting
        and analyze = "analyzeWithAI env_rejecting" and s = db_empty and now = 0
        and uid = 1 and r = req_ok]
    by (simp add: an)
  with ok have 7:
    "status (post_journal (analyzeWithAI env_rejecting) env_rejecting db_empty 0 1 req_ok) = 201"
    by (simp add: create_accepted db_empty_def)
  have "status (post_journal (analyzeWithAI env_rejecting) env_rejecting db_down 0 1 req_ok) =
      (case fst (Journal_create env_rejecting db_down 0 (create_doc 1 req_ok fallback)) of
         Inl _ \<Rightarrow> 500 | Inr _ \<Rightarrow> 201)"
    using enrichment_never_aborts [where e = env_rejecting
        and analyze = "analyzeWithAI env_rejecting" and s = db_down and now = 0
        and uid = 1 and r = req_ok]
    by (simp add: an)
  with ok have 8:
    "status (post_journal (analyzeWithAI env_rejecting) env_rejecting db_down 0 1 req_ok) = 500"
    by (simp add: create_fault db_down_def)
  from 1 2 3 4 5 6 7 8 show ?thesis by blast
qed

section \<open>Empty and whitespace-only content\<close>

text \<open>
  Claim C6, as stated, at the content of three spaces in the later revision and at the
  empty content in \<^verbatim>\<open>routes/journal.js\<close>: each sends a prompt to the provider and
  returns what the provider's answer decodes to, not the fallback value.
\<close>

theorem whitespace_content_counterexample:
  "list_all is_ws ''   ''
   \<and> fst (analyzeWithAI_p3 (env_answering text_happy) genai_ready (Some ''   '')) = [prompt_p3 (Some ''   '')]
   \<and> snd (analyzeWithAI_p3 (env_answering text_happy) genai_ready (Some ''   '')) \<noteq> fallback
   \<and> fst (analyzeWithAI (env_answering text_happy) (Some '''')) = [prompt (Some '''')]
   \<and> snd (analyzeWithAI (env_answering text_happy) (Some '''')) \<noteq> fallback"
  by (simp add: analyze_p3_blank analyze_prompts analyze_happy fallback_def is_ws_def)

text \<open>
  Claim C6, amended: in the later revision, for absent content and for the empty
  string (and whenever no client can be initialised) \<^verbatim>\<open>analyzeWithAI\<close> returns the
  fallback value without a call of the provider; every other content, whitespace-only
  content included, is sent to the provider in exactly one prompt. In
  \<^verbatim>\<open>routes/journal.js\<close> every content, the empty one included, is sent to the
  provider in exactly one prompt.
\<close>

theorem empty_content_short_circuit:
  "analyzeWithAI_p3 e g None = ([], fallback)
   \<and> analyzeWithAI_p3 e g (Some []) = ([], fallback)
   \<and> (\<not> fst (initGenAI g) \<longrightarrow> analyzeWithAI_p3 e g c = ([], fallback))
   \<and> (fst (initGenAI g) \<and> cs \<noteq> [] \<longrightarrow>
        fst (analyzeWithAI_p3 e g (Some cs)) = [prompt_p3 (Some cs)])
   \<and> fst (analyzeWithAI e c) = [prompt c]"
  by (simp add: analyzeWithAI_p3_def analyzeWithAI_def Let_def)

text \<open>
  The amended claim C6 at the content of three spaces with a client, and at a
  non-empty content with no API key.
\<close>

theorem empty_content_short_circuit_witness:
  "fst (initGenAI genai_ready) \<and> ''   '' \<noteq> []
   \<and> fst (analyzeWithAI_p3 (env_answering text_happy) genai_ready (Some ''   '')) = [prompt_p3 (Some ''   '')]
   \<and> \<not> fst (initGenAI (genai_ready\<lparr> api_key := None \<rparr>))
   \<and> analyzeWithAI_p3 (env_answering text_happy) (genai_ready\<lparr> api_key := None \<rparr>) (Some ''Slept in.'') = ([], fallback)"
proof -
  have h: "fst (initGenAI genai_ready) \<and> ''   '' \<noteq> []"
    by (simp add: ready)
  have k: "\<not> fst (initGenAI (genai_ready\<lparr> api_key := None \<rparr>))"
    by (simp add: initGenAI_def genai_ready_def)
  note t = empty_content_short_circuit [where e = "env_answering text_happy" and g = genai_ready
      and cs = "''   ''"]
  note u = empty_content_short_circuit [where e = "env_answering text_happy"
      and g = "genai_ready\<lparr> api_key := None \<rparr>" and c = "Some ''Slept in.''"]
  from h k t u show ?thesis by blast
qed

section \<open>Required fields on create\<close>

text \<open>
  Claim C7, as stated, at a create request without a title: the handler first sends
  the prompt, then hands the document to the store, and answers the store's
  validation error with status 500, the status it also gives a valid request when the
  store is down.
\<close>

theorem create_validation_counterexample:
  "req_title req_untitled = None
   \<and> post_journal (analyzeWithAI (env_answering text_happy)) (env_answering text_happy) db_empty 0 1 req_untitled
       = reply 500 (ErrorMessage (ValidationError [''title''])) db_empty [prompt (Some ''Slept in.'')]
   \<and> post_journal (analyzeWithAI (env_answering text_happy)) (env_answering text_happy) db_down 0 1 req_ok
       = reply 500 (ErrorMessage (StoreError ''connection lost'')) db_down [prompt (Some ''Slept in.'')]"
proof -
  have a: "failing_paths (env_answering text_happy)
      (create_doc 1 req_untitled \<lparr> a_summary = JStr ''A good day'', a_mood = JStr ''happy'' \<rparr>) = [''title'']"
    by (simp add: failing_paths_def create_doc_def castString_def moods_def req_untitled_def)
  have b: "failing_paths (env_answering text_happy)
      (create_doc 1 req_ok \<lparr> a_summary = JStr ''A good day'', a_mood = JStr ''happy'' \<rparr>) = []"
    by (simp add: failing_paths_def create_doc_def castString_def moods_def req_ok_def trim_def is_ws_def)
  have 1: "post_journal (analyzeWithAI (env_answering text_happy)) (env_answering text_happy) db_empty 0 1 req_untitled
       = reply 500 (ErrorMessage (ValidationError [''title''])) db_empty [prompt (Some ''Slept in.'')]"
    using a by (simp add: post_rejected analyze_happy analyze_prompts) (simp add: req_untitled_def)
  have 2: "post_journal (analyzeWithAI (env_answering text_happy)) (env_answering text_happy) db_down 0 1 req_ok
       = reply 500 (ErrorMessage (StoreError ''connection lost'')) db_down [prompt (Some ''Slept in.'')]"
    using b by (simp add: post_journal_def case_prod_beta analyze_happy analyze_prompts create_fault [where m = "''connection lost''"] db_down_def req_ok_def)
  show ?thesis using 1 2 by (simp add: req_untitled_def)
qed

text \<open>
  Claim C7, amended: for every create request in which \<^verbatim>\<open>title\<close> or \<^verbatim>\<open>content\<close> is
  missing or empty, the create operation makes no check of its own: it runs the
  enrichment step, hands the document to the store, and when the schema validation of
  the store rejects it, answers status 500 with the store's error message and stores
  nothing. Status 500 is also what it answers when an acceptable document meets a
  failing store; the two outcomes differ only in the message. In
  \<^verbatim>\<open>routes/journal.js\<close> the provider has been sent its prompt by then.
\<close>

theorem create_validation_by_store:
  "(\<not> present (req_title r) \<or> \<not> present (req_content r) \<longrightarrow>
      status (post_journal analyze e s now uid r) = 500
      \<and> store (post_journal analyze e s now uid r) = s
      \<and> prompts (post_journal analyze e s now uid r) = fst (analyze (req_content r))
      \<and> (\<exists>ps. ps \<noteq> [] \<and> sent (post_journal analyze e s now uid r) = ErrorMessage (ValidationError ps)))
   \<and> (fault s = Some m \<and> failing_paths e (create_doc uid r (snd (analyze (req_content r)))) = [] \<longrightarrow>
      status (post_journal analyze e s now uid r) = 500
      \<and> sent (post_journal analyze e s now uid r) = ErrorMessage (StoreError m))
   \<and> prompts (post_journal (analyzeWithAI e) e s now uid r) = [prompt (req_content r)]"
proof (intro conjI impI)
  assume a: "\<not> present (req_title r) \<or> \<not> present (req_content r)"
  let ?d = "create_doc uid r (snd (analyze (req_content r)))"
  from a have "''title'' \<in> set (failing_paths e ?d) \<or> ''content'' \<in> set (failing_paths e ?d)"
    using title_fails [of ?d e] content_fails [of ?d e] by (auto simp add: create_doc_fields)
  then have f: "failing_paths e ?d \<noteq> []" by auto
  from post_rejected [of e uid r analyze s now, OF f]
  show "status (post_journal analyze e s now uid r) = 500"
    and "store (post_journal analyze e s now uid r) = s"
    and "prompts (post_journal analyze e s now uid r) = fst (analyze (req_content r))"
    and "\<exists>ps. ps \<noteq> [] \<and> sent (post_journal analyze e s now uid r) = ErrorMessage (ValidationError ps)"
    using f by (simp_all add: reply_def)
next
  assume a: "fault s = Some m \<and> failing_paths e (create_doc uid r (snd (analyze (req_content r)))) = []"
  then show "status (post_journal analyze e s now uid r) = 500"
    and "sent (post_journal analyze e s now uid r) = ErrorMessage (StoreError m)"
    by (simp_all add: post_journal_def case_prod_beta create_fault reply_def)
next
  show "prompts (post_journal (analyzeWithAI e) e s now uid r) = [prompt (req_content r)]"
    by (simp add: post_journal_def case_prod_beta analyze_prompts reply_def split: sum.splits)
qed

text \<open>
  The amended claim C7 at a request without a title, and at a complete request
  against a store that is down.
\<close>

theorem create_validation_by_store_witness:
  "\<not> present (req_title req_untitled)
   \<and> status (post_journal (analyzeWithAI (env_answering text_happy)) (env_answering text_happy)
        db_empty 0 1 req_untitled) = 500
   \<and> store (post_journal (analyzeWithAI (env_answering text_happy)) (env_answering text_happy)
        db_empty 0 1 req_untitled) = db_empty
   \<and> prompts (post_journal (analyzeWithAI (env_answering text_happy)) (env_answering text_happy)
        db_empty 0 1 req_untitled) = [prompt (Some ''Slept in.'')]
   \<and> fault db_down = Some ''connection lost''
   \<and> status (post_journal (analyzeWithAI (env_answering text_happy)) (env_answering text_happy)
        db_down 0 1 req_ok) = 500"
proof -
  have h: "\<not> present (req_title req_untitled)"
    by (simp add: present_def req_untitled_def)
  have c: "req_content req_untitled = Some ''Slept in.''"
    by (simp add: req_untitled_def)
  have f: "fault db_down = Some ''connection lost''"
    by (simp add: db_down_def)
  have b: "failing_paths (env_answering text_happy)
      (create_doc 1 req_ok (snd (analyzeWithAI (env_answering text_happy) (req_content req_ok)))) = []"
    by (simp add: analyze_happy failing_paths_def create_doc_def castString_def moods_def
        req_ok_def trim_def is_ws_def)
  note t = create_validation_by_store [where r = req_untitled
      and analyze = "analyzeWithAI (env_answering text_happy)" and e = "env_answering text_happy"
      and s = db_empty and now = 0 and uid = 1 and m = "''connection lost''"]
  note u = create_validation_by_store [where r = req_ok
      and analyze = "analyzeWithAI (env_answering text_happy)" and e = "env_answering text_happy"
      and s = db_down and now = 0 and uid = 1 and m = "''connection lost''"]
  from t h c have
    "status (post_journal (analyzeWithAI (env_answering text_happy)) (env_answering text_happy)
        db_empty 0 1 req_untitled) = 500"
    "store (post_journal (analyzeWithAI (env_answering text_happy)) (env_answering text_happy)
        db_empty 0 1 req_untitled) = db_empty"
    "prompts (post_journal (analyzeWithAI (env_answering text_happy)) (env_answering text_happy)
        db_empty 0 1 req_untitled) = [prompt (Some ''Slept in.'')]"
    by (simp_all add: analyze_prompts)
  moreover from u f b have
    "status (post_journal (analyzeWithAI (env_answering text_happy)) (env_answering text_happy)
        db_down 0 1 req_ok) = 500"
    by blast
  ultimately show ?thesis using h f by blast
qed

section \<open>A mood outside the enum\<close>

text \<open>
  Neither revision compares the decoded mood with the enum: a mood that is a non-empty
  string passes through \<open>pick\<close> as it is, and whenever the enrichment step returns a
  mood outside the enum the write is refused by the schema, on create and on a
  content-changing update alike.
\<close>

lemma out_of_enum_mood_always_rejected:
  "(get_prop parsed ''mood'' = Inr (Some (JStr m)) \<and> m \<noteq> [] \<longrightarrow> a_mood (pick parsed) = JStr m)
   \<and> (a_mood (snd (analyze (req_content r))) = JStr m \<and> m \<notin> set moods \<longrightarrow>
        status (post_journal analyze e s now uid r) = 500
        \<and> store (post_journal analyze e s now uid r) = s)
   \<and> (findById e s i = Inr (Some j) \<and> user j = uid \<and> reanalyze j r
        \<and> a_mood (snd (analyze (req_content r))) = JStr m \<and> m \<notin> set moods \<longrightarrow>
        status (put_journal analyze e s now uid i r) = 500
        \<and> store (put_journal analyze e s now uid i r) = s)"
proof (intro conjI impI)
  assume "get_prop parsed ''mood'' = Inr (Some (JStr m)) \<and> m \<noteq> []"
  then show "a_mood (pick parsed) = JStr m"
    by (simp add: pick_keeps_mood)
next
  assume a: "a_mood (snd (analyze (req_content r))) = JStr m \<and> m \<notin> set moods"
  let ?d = "create_doc uid r (snd (analyze (req_content r)))"
  from a have "''mood'' \<in> set (failing_paths e ?d)"
    by (intro mood_fails [of ?d m]) (simp_all add: create_doc_fields)
  then have f: "failing_paths e ?d \<noteq> []" by auto
  from post_rejected [of e uid r analyze s now, OF f]
  show "status (post_journal analyze e s now uid r) = 500"
    and "store (post_journal analyze e s now uid r) = s"
    by (simp_all add: reply_def)
next
  assume a: "findById e s i = Inr (Some j) \<and> user j = uid \<and> reanalyze j r
        \<and> a_mood (snd (analyze (req_content r))) = JStr m \<and> m \<notin> set moods"
  let ?d = "update_doc j r (snd (analyze (req_content r)))"
  from a have "''mood'' \<in> set (failing_paths e ?d)"
    by (intro mood_fails [of ?d m]) (simp_all add: update_doc_fields)
  then have f: "failing_paths e ?d \<noteq> []" by auto
  from a have "findById e s i = Inr (Some j)" "user j = uid" "reanalyze j r" by simp_all
  from put_rejected [where analyze = analyze and now = now, OF this f]
  show "status (put_journal analyze e s now uid i r) = 500"
    and "store (put_journal analyze e s now uid i r) = s"
    by (simp_all add: reply_def)
qed

text \<open>
  The paths beside it: what \<^verbatim>\<open>analyzeWithAI\<close> returns when the provider raises, when
  the answer is not JSON, and when the answer has no mood; and what create stores for
  a complete request when the enrichment step returned the mood neutral.
\<close>

lemma analyze_rejecting: "snd (analyzeWithAI env_rejecting c) = fallback"
  by (simp add: analyzeWithAI_def ev_simps)

lemma analyze_prose: "snd (analyzeWithAI (env_answering text_prose) c) = fallback"
  by (simp add: analyzeWithAI_def ev_simps parse_prose)

lemma analyze_moodless:
  "snd (analyzeWithAI (env_answering text_moodless) c)
     = \<lparr> a_summary = JStr ''A big day'', a_mood = JStr ''neutral'' \<rparr>"
  by (simp add: analyzeWithAI_def Let_def ev_simps parse_moodless pick_def or_default_def)

lemma moodless_nonempty: "text_moodless \<noteq> []"
  by (simp add: text_moodless_def)

lemma analyze_p3_ecstatic:
  "analyzeWithAI_p3 (env_answering text_ecstatic) genai_ready (Some ''Slept in.'')
     = ([prompt_p3 (Some ''Slept in.'')],
        \<lparr> a_summary = JStr ''A big day'', a_mood = JStr ''ecstatic'' \<rparr>)"
proof -
  have "text_ecstatic \<noteq> []" by (simp add: text_ecstatic_def)
  then show ?thesis
    by (simp add: analyzeWithAI_p3_def Let_def ready ev_simps decode_p3_def parse_ecstatic
        pick_def or_default_def)
qed

lemma post_stored:
  assumes "failing_paths e (create_doc uid r (snd (analyze (req_content r)))) = []"
    and "fault s = None"
  shows "post_journal analyze e s now uid r =
     reply 201
       (JournalBody (stored_fields e (create_doc uid r (snd (analyze (req_content r))))
          (blank\<lparr> jid := next_id s, createdAt := now, updatedAt := now \<rparr>)))
       (s\<lparr> docs := docs s @ [stored_fields e (create_doc uid r (snd (analyze (req_content r))))
                 (blank\<lparr> jid := next_id s, createdAt := now, updatedAt := now \<rparr>)],
           next_id := Suc (next_id s) \<rparr>)
       (fst (analyze (req_content r)))"
  using assms by (simp add: post_journal_def case_prod_beta Journal_create_def Let_def)

lemma post_neutral:
  assumes "snd (analyze (req_content req_ok)) = \<lparr> a_summary = JStr x, a_mood = JStr ''neutral'' \<rparr>"
  shows "status (post_journal analyze e db_empty 0 1 req_ok) = 201
     \<and> map mood (docs (store (post_journal analyze e db_empty 0 1 req_ok))) = [''neutral'']"
proof -
  have f: "failing_paths e (create_doc 1 req_ok (snd (analyze (req_content req_ok)))) = []"
    unfolding assms
    by (simp add: failing_paths_def create_doc_def castString_def moods_def req_ok_def
        trim_def is_ws_def)
  have n: "fault db_empty = None" "docs db_empty = []"
    by (simp_all add: db_empty_def)
  have m: "mood (stored_fields e (create_doc uid req_ok (snd (analyze (req_content req_ok)))) j)
      = ''neutral''" for j uid
    unfolding assms
    by (simp add: stored_fields_def create_doc_def castString_def opt_text_def)
  show ?thesis
    unfolding post_stored [where analyze = analyze and now = 0, OF f n(1)]
    by (simp add: reply_def n m)
qed

text \<open>
  Claim C2 at a complete create request, and at a content-changing update of journal
  7 by its owner, while the provider answers with the mood "ecstatic", which is not
  in the enum. The claim has neutral stored. Both revisions hand "ecstatic" to the
  store, the schema refuses the document, the handler answers 500, and the store is
  as before: the entry is lost, the update is lost. On the paths beside this one
  (the provider raises, the answer is not JSON, the answer has no mood) the same
  create request is answered 201 and the journal is stored with the mood neutral.
\<close>

theorem out_of_enum_mood_loses_entry:
  "''ecstatic'' \<notin> set moods
   \<and> parse_sample text_ecstatic
       = Some (JObj [(''summary'', JStr ''A big day''), (''mood'', JStr ''ecstatic'')])
   \<and> post_journal (analyzeWithAI (env_answering text_ecstatic)) (env_answering text_ecstatic)
        db_empty 0 1 req_ok
       = reply 500 (ErrorMessage (ValidationError [''mood''])) db_empty [prompt (Some ''Slept in.'')]
   \<and> post_journal (analyzeWithAI_p3 (env_answering text_ecstatic) genai_ready)
        (env_answering text_ecstatic) db_empty 0 1 req_ok
       = reply 500 (ErrorMessage (ValidationError [''mood''])) db_empty
           [prompt_p3 (Some ''Slept in.'')]
   \<and> docs db_empty = []
   \<and> put_journal (analyzeWithAI (env_answering text_ecstatic)) (env_answering text_ecstatic)
        db_one 0 1 id7 req_edit
       = reply 500 (ErrorMessage (ValidationError [''mood''])) db_one
           [prompt (Some ''A run in the park'')]
   \<and> map mood (docs db_one) = [''calm'']
   \<and> status (post_journal (analyzeWithAI env_rejecting) env_rejecting db_empty 0 1 req_ok) = 201
   \<and> map mood (docs (store (post_journal (analyzeWithAI env_rejecting) env_rejecting
        db_empty 0 1 req_ok))) = [''neutral'']
   \<and> status (post_journal (analyzeWithAI (env_answering text_prose)) (env_answering text_prose)
        db_empty 0 1 req_ok) = 201
   \<and> map mood (docs (store (post_journal (analyzeWithAI (env_answering text_prose))
        (env_answering text_prose) db_empty 0 1 req_ok))) = [''neutral'']
   \<and> status (post_journal (analyzeWithAI (env_answering text_moodless))
        (env_answering text_moodless) db_empty 0 1 req_ok) = 201
   \<and> map mood (docs (store (post_journal (analyzeWithAI (env_answering text_moodless))
        (env_answering text_moodless) db_empty 0 1 req_ok))) = [''neutral'']"
proof -
  have c: "req_content req_ok = Some ''Slept in.''" by (simp add: req_ok_def)
  have a: "failing_paths (env_answering text_ecstatic)
      (create_doc 1 req_ok \<lparr> a_summary = JStr ''A big day'', a_mood = JStr ''ecstatic'' \<rparr>)
      = [''mood'']"
    by (simp add: failing_paths_def create_doc_def castString_def moods_def req_ok_def trim_def
        is_ws_def)
  have b: "failing_paths (env_answering text_ecstatic)
      (update_doc entry req_edit \<lparr> a_summary = JStr ''A big day'', a_mood = JStr ''ecstatic'' \<rparr>)
      = [''mood'']"
    by (simp add: failing_paths_def update_doc_def castString_def moods_def req_edit_def entry_def
        or_else_def trim_def is_ws_def)
  have 1: "post_journal (analyzeWithAI (env_answering text_ecstatic)) (env_answering text_ecstatic)
        db_empty 0 1 req_ok
       = reply 500 (ErrorMessage (ValidationError [''mood''])) db_empty [prompt (Some ''Slept in.'')]"
    using a by (simp add: post_rejected analyze_ecstatic analyze_prompts c)
  have 2: "post_journal (analyzeWithAI_p3 (env_answering text_ecstatic) genai_ready)
        (env_answering text_ecstatic) db_empty 0 1 req_ok
       = reply 500 (ErrorMessage (ValidationError [''mood''])) db_empty
           [prompt_p3 (Some ''Slept in.'')]"
    using a by (simp add: post_rejected analyze_p3_ecstatic c)
  have 3: "put_journal (analyzeWithAI (env_answering text_ecstatic)) (env_answering text_ecstatic)
        db_one 0 1 id7 req_edit
       = reply 500 (ErrorMessage (ValidationError [''mood''])) db_one
           [prompt (Some ''A run in the park'')]"
    using b put_rejected [where s = db_one and i = id7 and j = entry and uid = 1 and r = req_edit
        and e = "env_answering text_ecstatic"
        and analyze = "analyzeWithAI (env_answering text_ecstatic)" and now = 0]
    by (simp add: find_entry reanalyze_edit analyze_ecstatic analyze_prompts)
       (simp add: entry_def req_edit_def)
  have 4: "docs db_empty = []" "map mood (docs db_one) = [''calm'']"
    by (simp_all add: db_empty_def db_one_def entry_def)
  note 5 = post_neutral [where analyze = "analyzeWithAI env_rejecting" and e = env_rejecting
      and x = "''AI analysis unavailable''"]
  note 6 = post_neutral [where analyze = "analyzeWithAI (env_answering text_prose)"
      and e = "env_answering text_prose" and x = "''AI analysis unavailable''"]
  note 7 = post_neutral [where analyze = "analyzeWithAI (env_answering text_moodless)"
      and e = "env_answering text_moodless" and x = "''A big day''"]
  show ?thesis
    using 1 2 3 4 5 6 7
    by (simp add: ecstatic_out parse_ecstatic analyze_rejecting analyze_prose analyze_moodless
        fallback_def)
qed

text \<open>
  Claim C2 at the same create request in the later revision, read off the evaluation
  above: the answer is 500, nothing is stored, and the prompt has been sent.
\<close>

theorem out_of_enum_mood_loses_entry_witness:
  "status (post_journal (analyzeWithAI_p3 (env_answering text_ecstatic) genai_ready)
        (env_answering text_ecstatic) db_empty 0 1 req_ok) = 500
   \<and> docs (store (post_journal (analyzeWithAI_p3 (env_answering text_ecstatic) genai_ready)
        (env_answering text_ecstatic) db_empty 0 1 req_ok)) = []
   \<and> prompts (post_journal (analyzeWithAI_p3 (env_answering text_ecstatic) genai_ready)
        (env_answering text_ecstatic) db_empty 0 1 req_ok) = [prompt_p3 (Some ''Slept in.'')]"
  using out_of_enum_mood_loses_entry by (simp add: reply_def)

section \<open>An update that does not change the content\<close>

text \<open>
  One update without a change of content, and a sequence of them, on a journal whose
  \<^verbatim>\<open>mood\<close> equals its \<^verbatim>\<open>aiMood\<close>.
\<close>

lemma find_holds: "find P xs = Some x \<Longrightarrow> P x"
  by (induction xs) (auto split: if_splits)

lemma find_member: "find P xs = Some x \<Longrightarrow> x \<in> set xs"
  by (induction xs) (auto split: if_splits)

lemma find_replaced:
  assumes "find (\<lambda>x. jid x = i) ds = Some j" "jid j' = jid j"
  shows "find (\<lambda>x. jid x = i) (map (\<lambda>x. if jid x = jid j then j' else x) ds) = Some j'"
  using assms
proof (induction ds)
  case Nil
  then show ?case by simp
next
  case (Cons d ds)
  from Cons.prems(1) have ji: "jid j = i"
    by (rule find_holds)
  show ?case
  proof (cases "jid d = i")
    case True
    with Cons.prems ji show ?thesis by simp
  next
    case False
    with Cons ji show ?thesis by simp
  qed
qed

lemma findById_saved:
  assumes "findById e s i = Inr (Some j)" "jid j' = jid j"
  shows "findById e (s\<lparr> docs := map (\<lambda>x. if jid x = jid j then j' else x) (docs s) \<rparr>) i
     = Inr (Some j')"
  using assms by (auto simp add: findById_def find_replaced split: option.splits)

lemma found_no_fault: "findById e s i = Inr x \<Longrightarrow> fault s = None"
  by (simp add: findById_def split: option.splits)

lemma found_in_docs: "findById e s i = Inr (Some j) \<Longrightarrow> j \<in> set (docs s)"
  by (auto simp add: findById_def find_member split: option.splits)

lemma stored_kept:
  assumes "mood j = aiMood j" "req_content r = None \<or> req_content r = Some (content j)"
  shows "kept j (stored_fields e
     (update_doc j r \<lparr> a_summary = JStr (aiSummary j), a_mood = JStr (aiMood j) \<rparr>)
     (j\<lparr> updatedAt := now \<rparr>))"
  using assms
  by (auto simp add: kept_def stored_fields_def update_doc_def castString_def opt_text_def or_else_def)

lemma stored_jid: "jid (stored_fields e d j) = jid j"
  by (simp add: stored_fields_def)

lemma not_reanalyze:
  "req_content r = None \<or> req_content r = Some (content j) \<Longrightarrow> \<not> reanalyze j r"
  by (auto simp add: reanalyze_def present_def)

lemma put_unchanged_step:
  assumes f: "findById e s i = Inr (Some j)" and m: "mood j = aiMood j"
    and c: "req_content r = None \<or> req_content r = Some (content j)"
  shows "prompts (put_journal analyze e s now uid i r) = []
     \<and> (\<exists>j'. findById e (store (put_journal analyze e s now uid i r)) i = Inr (Some j') \<and> kept j j')"
proof (cases "user j = uid")
  case False
  with f have "put_journal analyze e s now uid i r = reply 403 (Message ''Not authorized'') s []"
    by (simp add: put_journal_def)
  moreover have "kept j j" by (simp add: kept_def)
  ultimately show ?thesis using f by (auto simp add: reply_def)
next
  case u: True
  let ?a = "\<lparr> a_summary = JStr (aiSummary j), a_mood = JStr (aiMood j) \<rparr>"
  let ?d = "update_doc j r ?a"
  let ?j = "stored_fields e ?d (j\<lparr> updatedAt := now \<rparr>)"
  have nr: "\<not> reanalyze j r" using c by (rule not_reanalyze)
  have nf: "fault s = None" using f by (rule found_no_fault)
  show ?thesis
  proof (cases "failing_paths e ?d = []")
    case True
    have "put_journal analyze e s now uid i r =
        reply 200 (JournalBody ?j)
          (s\<lparr> docs := map (\<lambda>x. if jid x = jid j then ?j else x) (docs s) \<rparr>) []"
      using f u nr True nf by (simp add: put_journal_def save_accepted)
    moreover have "findById e (s\<lparr> docs := map (\<lambda>x. if jid x = jid j then ?j else x) (docs s) \<rparr>) i
        = Inr (Some ?j)"
      using f by (rule findById_saved) (simp add: stored_jid)
    moreover have "kept j ?j" using m c by (rule stored_kept)
    ultimately show ?thesis by (auto simp add: reply_def)
  next
    case False
    have "put_journal analyze e s now uid i r =
        reply 500 (ErrorMessage (ValidationError (failing_paths e ?d))) s []"
      using f u nr False by (simp add: put_journal_def save_rejected)
    moreover have "kept j j" by (simp add: kept_def)
    ultimately show ?thesis using f by (auto simp add: reply_def)
  qed
qed

lemma put_many_unchanged:
  assumes "findById e s i = Inr (Some j)" "mood j = aiMood j"
    "\<forall>(now, r) \<in> set rs. req_content r = None \<or> req_content r = Some (content j)"
  shows "\<exists>j'. findById e (put_many analyze e s uid i rs) i = Inr (Some j') \<and> kept j j'"
  using assms
proof (induction rs arbitrary: s j)
  case Nil
  then show ?case by (auto simp add: kept_def)
next
  case (Cons nr rs)
  obtain now r where nr: "nr = (now, r)" by (cases nr)
  from Cons.prems(3) nr have c: "req_content r = None \<or> req_content r = Some (content j)"
    by simp
  from put_unchanged_step [OF Cons.prems(1) Cons.prems(2) c, of analyze now uid]
  obtain j1 where j1: "findById e (store (put_journal analyze e s now uid i r)) i = Inr (Some j1)"
    and k1: "kept j j1" by blast
  from k1 Cons.prems have m1: "mood j1 = aiMood j1"
    by (simp_all add: kept_def)
  from k1 Cons.prems(3) have c1:
    "\<forall>(now, r) \<in> set rs. req_content r = None \<or> req_content r = Some (content j1)"
    by (auto simp add: kept_def)
  from Cons.IH [OF j1 m1 c1]
  obtain j2 where "findById e (put_many analyze e (store (put_journal analyze e s now uid i r)) uid i rs) i
      = Inr (Some j2)" and "kept j1 j2" by blast
  with k1 nr show ?case by (auto simp add: kept_def)
qed

text \<open>
  Create and update assign \<^verbatim>\<open>mood\<close> and \<^verbatim>\<open>aiMood\<close> from one value, and delete only
  removes: in every store the program produces from a store without journals, each
  journal has its \<^verbatim>\<open>mood\<close> equal to its \<^verbatim>\<open>aiMood\<close>.
\<close>

lemma stored_moods:
  "d_mood d = d_aiMood d \<Longrightarrow> mood (stored_fields e d j) = aiMood (stored_fields e d j)"
  by (simp add: stored_fields_def)

lemma create_doc_moods: "d_mood (create_doc uid r a) = d_aiMood (create_doc uid r a)"
  by (simp add: create_doc_def)

lemma update_doc_moods: "d_mood (update_doc j r a) = d_aiMood (update_doc j r a)"
  by (simp add: update_doc_def)

lemma empty_consistent: "docs s = [] \<Longrightarrow> consistent s"
  by (simp add: consistent_def)

lemma post_consistent:
  assumes "consistent s"
  shows "consistent (store (post_journal analyze e s now uid r))"
  using assms
  by (simp add: post_journal_def case_prod_beta Journal_create_def Let_def reply_def
      consistent_def stored_moods create_doc_moods split: option.splits)

lemma put_consistent:
  assumes "consistent s"
  shows "consistent (store (put_journal analyze e s now uid i r))"
  using assms
  by (auto simp add: put_journal_def case_prod_beta journal_save_def Let_def reply_def
      consistent_def stored_moods update_doc_moods list_all_iff
      split: option.splits sum.splits)

lemma delete_consistent:
  assumes "consistent s"
  shows "consistent (store (delete_journal e s uid i))"
  using assms
  by (auto simp add: delete_journal_def journal_deleteOne_def reply_def consistent_def list_all_iff
      split: option.splits sum.splits)

lemma step_consistent: "consistent s \<Longrightarrow> consistent (step s c)"
  by (cases c) (simp_all add: post_consistent put_consistent delete_consistent, simp add: consistent_def)

lemma run_consistent: "consistent s \<Longrightarrow> consistent (run s cs)"
  by (induction cs arbitrary: s) (simp_all add: step_consistent)

lemma produced_found:
  assumes "docs s0 = []" "findById e (run s0 cs) i = Inr (Some j)"
  shows "mood j = aiMood j"
proof -
  from assms(1) have "consistent (run s0 cs)"
    by (intro run_consistent empty_consistent)
  with found_in_docs [OF assms(2)] show ?thesis
    by (simp add: consistent_def list_all_iff)
qed

lemma first_post_store:
  "run db_empty first_post =
     db_empty\<lparr> docs := [stored_fields (env_answering text_happy)
          (create_doc 1 req_ok \<lparr> a_summary = JStr ''A good day'', a_mood = JStr ''happy'' \<rparr>)
          (blank\<lparr> jid := 0, createdAt := 5, updatedAt := 5 \<rparr>)],
        next_id := 1 \<rparr>"
proof -
  have f: "failing_paths (env_answering text_happy)
      (create_doc 1 req_ok (snd (analyzeWithAI (env_answering text_happy) (req_content req_ok)))) = []"
    by (simp add: analyze_happy failing_paths_def create_doc_def castString_def moods_def
        req_ok_def trim_def is_ws_def)
  have n: "fault db_empty = None" "docs db_empty = []" "next_id db_empty = 0"
    by (simp_all add: db_empty_def)
  show ?thesis
    unfolding first_post_def run.simps step.simps
      post_stored [where analyze = "analyzeWithAI (env_answering text_happy)" and now = 5, OF f n(1)]
    by (simp add: reply_def n analyze_happy)
qed

lemma first_entry_fields:
  "jid first_entry = 0" "aiSummary first_entry = ''A good day''" "aiMood first_entry = ''happy''"
  "mood first_entry = ''happy''" "content first_entry = ''Slept in.''"
  by (simp_all add: first_entry_def stored_fields_def create_doc_def castString_def opt_text_def
      blank_def req_ok_def)

lemma find_first_entry:
  "findById (env_answering text_happy) (run db_empty first_post) id0 = Inr (Some first_entry)"
  unfolding first_post_store first_entry_def [symmetric]
  by (simp add: findById_def ev_simps sample_ids db_empty_def first_entry_fields)

text \<open>
  Claim C3: for every journal in a store the program has produced (by any history of
  create, update and delete calls and of outages, from a store without journals) and
  every update request whose content is absent or string-equal to the stored content,
  whoever sends it, the update sends nothing to the provider and leaves the stored
  \<^verbatim>\<open>aiSummary\<close>, \<^verbatim>\<open>aiMood\<close> and \<^verbatim>\<open>mood\<close> of the journal unchanged; and so does every
  sequence of such updates.
\<close>

theorem unchanged_content_keeps_enrichment:
  "(docs s0 = [] \<and> findById e (run s0 cs) i = Inr (Some j)
      \<and> (req_content r = None \<or> req_content r = Some (content j))
    \<longrightarrow> prompts (put_journal analyze e (run s0 cs) now uid i r) = []
        \<and> (\<exists>j'. findById e (store (put_journal analyze e (run s0 cs) now uid i r)) i = Inr (Some j')
              \<and> aiSummary j' = aiSummary j \<and> aiMood j' = aiMood j \<and> mood j' = mood j))
   \<and> (docs s0 = [] \<and> findById e (run s0 cs) i = Inr (Some j)
      \<and> (\<forall>(now, r) \<in> set rs. req_content r = None \<or> req_content r = Some (content j))
    \<longrightarrow> (\<exists>j'. findById e (put_many analyze e (run s0 cs) uid i rs) i = Inr (Some j')
              \<and> aiSummary j' = aiSummary j \<and> aiMood j' = aiMood j \<and> mood j' = mood j))"
proof (intro conjI impI)
  assume a: "docs s0 = [] \<and> findById e (run s0 cs) i = Inr (Some j)
      \<and> (req_content r = None \<or> req_content r = Some (content j))"
  then have f: "findById e (run s0 cs) i = Inr (Some j)"
    and c: "req_content r = None \<or> req_content r = Some (content j)" by simp_all
  from a have m: "mood j = aiMood j" by (intro produced_found [of s0 e cs i j]) simp_all
  from put_unchanged_step [OF f m c, of analyze now uid]
  show "prompts (put_journal analyze e (run s0 cs) now uid i r) = []"
    and "\<exists>j'. findById e (store (put_journal analyze e (run s0 cs) now uid i r)) i = Inr (Some j')
              \<and> aiSummary j' = aiSummary j \<and> aiMood j' = aiMood j \<and> mood j' = mood j"
    by (auto simp add: kept_def)
next
  assume a: "docs s0 = [] \<and> findById e (run s0 cs) i = Inr (Some j)
      \<and> (\<forall>(now, r) \<in> set rs. req_content r = None \<or> req_content r = Some (content j))"
  then have f: "findById e (run s0 cs) i = Inr (Some j)"
    and c: "\<forall>(now, r) \<in> set rs. req_content r = None \<or> req_content r = Some (content j)"
    by simp_all
  from a have m: "mood j = aiMood j" by (intro produced_found [of s0 e cs i j]) simp_all
  from put_many_unchanged [OF f m c, of analyze uid]
  show "\<exists>j'. findById e (put_many analyze e (run s0 cs) uid i rs) i = Inr (Some j')
              \<and> aiSummary j' = aiSummary j \<and> aiMood j' = aiMood j \<and> mood j' = mood j"
    by (auto simp add: kept_def)
qed

text \<open>
  Claim C3 at the journal that user 1 created in a store without journals, updated
  first with a request that carries a title only and then with one that repeats the
  stored content.
\<close>

theorem unchanged_content_keeps_enrichment_witness:
  "docs db_empty = []
   \<and> findById (env_answering text_happy) (run db_empty first_post) id0 = Inr (Some first_entry)
   \<and> req_content no_change = None
   \<and> req_content req_ok = Some (content first_entry)
   \<and> prompts (put_journal (analyzeWithAI (env_answering text_happy)) (env_answering text_happy)
         (run db_empty first_post) 6 1 id0 no_change) = []
   \<and> (\<exists>j'. findById (env_answering text_happy)
              (put_many (analyzeWithAI (env_answering text_happy)) (env_answering text_happy)
                 (run db_empty first_post) 1 id0 [(6, no_change), (7, req_ok)]) id0 = Inr (Some j')
         \<and> aiSummary j' = ''A good day'' \<and> aiMood j' = ''happy'' \<and> mood j' = ''happy'')"
proof -
  have d: "docs db_empty = []" by (simp add: db_empty_def)
  have c: "req_content no_change = None" by (simp add: no_change_def)
  have k: "req_content req_ok = Some (content first_entry)"
    by (simp add: first_entry_fields) (simp add: req_ok_def)
  note t = unchanged_content_keeps_enrichment [where ?s0.0 = db_empty and cs = first_post
      and e = "env_answering text_happy" and i = id0 and j = first_entry and r = no_change
      and analyze = "analyzeWithAI (env_answering text_happy)" and now = 6 and uid = 1
      and rs = "[(6, no_change), (7, req_ok)]"]
  from t d find_first_entry c have 1:
    "prompts (put_journal (analyzeWithAI (env_answering text_happy)) (env_answering text_happy)
         (run db_empty first_post) 6 1 id0 no_change) = []"
    by blast
  from t d find_first_entry c k have 2:
    "\<exists>j'. findById (env_answering text_happy)
              (put_many (analyzeWithAI (env_answering text_happy)) (env_answering text_happy)
                 (run db_empty first_post) 1 id0 [(6, no_change), (7, req_ok)]) id0 = Inr (Some j')
         \<and> aiSummary j' = aiSummary first_entry \<and> aiMood j' = aiMood first_entry
         \<and> mood j' = mood first_entry"
    by simp
  from d find_first_entry c k 1 2 show ?thesis
    by (simp add: first_entry_fields)
qed

section \<open>Weekly activity\<close>

lemma map_of_bump:
  "map_of (bump k xs) d =
     (if d = k then Some (case map_of xs k of None \<Rightarrow> 1 | Some c \<Rightarrow> c + 1) else map_of xs d)"
  by (induction xs) auto

lemma keys_bump: "fst ` set (bump k xs) = insert k (fst ` set xs)"
  by (induction k xs rule: bump.induct) auto

lemma distinct_bump: "distinct (map fst xs) \<Longrightarrow> distinct (map fst (bump k xs))"
proof (induction xs)
  case Nil
  then show ?case by simp
next
  case (Cons x xs)
  obtain k' c where x: "x = (k', c)" by (cases x)
  from Cons show ?case
    using keys_bump [of k xs] by (auto simp add: x)
qed

lemma map_of_fold_bump:
  "map_of (fold (\<lambda>j st. bump (key j) st) js acc) d =
     (case map_of acc d of
        None \<Rightarrow> (if length (filter (\<lambda>j. key j = d) js) = 0 then None
                  else Some (length (filter (\<lambda>j. key j = d) js)))
      | Some c \<Rightarrow> Some (c + length (filter (\<lambda>j. key j = d) js)))"
proof (induction js arbitrary: acc)
  case Nil
  then show ?case by (simp split: option.splits)
next
  case (Cons j js)
  show ?case
    by (simp add: Cons.IH map_of_bump split: option.splits)
qed

lemma distinct_fold_bump:
  "distinct (map fst acc) \<Longrightarrow> distinct (map fst (fold (\<lambda>j st. bump (key j) st) js acc))"
  by (induction js arbitrary: acc) (simp_all add: distinct_bump)

lemma weekly_counts_map:
  "map_of (weekly_counts now js) d =
     (let n = length (filter (\<lambda>j. now - 7 * DAY \<le> createdAt j \<and> day_of (createdAt j) = d) js)
      in if n = 0 then None else Some n)"
proof -
  have "filter (\<lambda>j. day_of (createdAt j) = d) (filter (\<lambda>j. createdAt j \<ge> now - 7 * DAY) js)
      = filter (\<lambda>j. now - 7 * DAY \<le> createdAt j \<and> day_of (createdAt j) = d) js"
    by (simp add: conj_commute)
  then show ?thesis
    by (simp add: weekly_counts_def map_of_fold_bump [where key = "\<lambda>j. day_of (createdAt j)"] Let_def)
qed

lemma weekly_counts_distinct: "distinct (map fst (weekly_counts now js))"
  by (simp add: weekly_counts_def distinct_fold_bump)

lemma day_back: "day_of (t - k * DAY) = day_of t - k"
  by (simp add: day_of_def DAY_def)

lemma upt7: "[0..<7] = [0, 1, 2, 3, 4, 5, 6]"
  by (simp add: upt_rec)

lemma weeklyData_three:
  assumes "day_of (createdAt a) = day_of now - 1" "day_of (createdAt b) = day_of now - 1"
    "day_of (createdAt c) = day_of now - 3"
  shows "weeklyData now [a, b, c] = [0, 0, 0, 1, 0, 2, 0]"
  using assms by (simp add: weeklyData_def upt7 day_back)


lemma stats_weekly_ok:
  "fault s = None \<Longrightarrow>
     stats_weekly s now uid =
       reply 200 (StatsBody (weekly_counts now (filter (\<lambda>j. user j = uid) (docs s)))) s []"
  by (simp add: stats_weekly_def find_user_def)

text \<open>
  Claim C8, as stated, at an entry created exactly seven times 24 hours before now:
  the claim puts the boundary outside the window, the aggregate counts the entry.
\<close>

theorem weekly_boundary_counterexample:
  "createdAt (written (3 * DAY)) = 10 * DAY - 7 * DAY
   \<and> weekly_counts (10 * DAY) [written (3 * DAY)] = [(3, 1)]"
  by (simp add: weekly_counts_def written_def blank_def day_of_def DAY_def)

text \<open>
  Claim C8, amended: the weekly-activity aggregate counts exactly the user's entries
  whose \<^verbatim>\<open>createdAt\<close> is not earlier than seven times 24 hours before now (the boundary
  itself included, no upper bound), bucketed by calendar-day key, one bucket per day,
  and a day without such an entry has no bucket; and the seven-slot zero-filled
  charting series for entries on days \<open>-1\<close>, \<open>-1\<close>, \<open>-3\<close> relative to now has count 2 at
  offset \<open>-1\<close>, count 1 at offset \<open>-3\<close> and 0 elsewhere.
\<close>

theorem weekly_activity:
  "map_of (weekly_counts now js) d =
     (let n = length (filter (\<lambda>j. now - 7 * DAY \<le> createdAt j \<and> day_of (createdAt j) = d) js)
      in if n = 0 then None else Some n)
   \<and> distinct (map fst (weekly_counts now js))
   \<and> (fault s = None \<longrightarrow>
        stats_weekly s now uid =
          reply 200 (StatsBody (weekly_counts now (filter (\<lambda>j. user j = uid) (docs s)))) s [])
   \<and> (day_of (createdAt a) = day_of now - 1 \<and> day_of (createdAt b) = day_of now - 1
        \<and> day_of (createdAt c) = day_of now - 3
      \<longrightarrow> weeklyData now [a, b, c] = [0, 0, 0, 1, 0, 2, 0])"
proof (intro conjI impI)
  show "map_of (weekly_counts now js) d =
     (let n = length (filter (\<lambda>j. now - 7 * DAY \<le> createdAt j \<and> day_of (createdAt j) = d) js)
      in if n = 0 then None else Some n)"
    by (rule weekly_counts_map)
  show "distinct (map fst (weekly_counts now js))"
    by (rule weekly_counts_distinct)
next
  assume "fault s = None"
  then show "stats_weekly s now uid =
          reply 200 (StatsBody (weekly_counts now (filter (\<lambda>j. user j = uid) (docs s)))) s []"
    by (rule stats_weekly_ok)
next
  assume "day_of (createdAt a) = day_of now - 1 \<and> day_of (createdAt b) = day_of now - 1
        \<and> day_of (createdAt c) = day_of now - 3"
  then show "weeklyData now [a, b, c] = [0, 0, 0, 1, 0, 2, 0]"
    by (intro weeklyData_three) simp_all
qed

text \<open>
  The amended claim C8 at noon of day 10: three entries on days 9, 9 and 7 for the
  chart, and the store with one entry of user 1 on day 10 for the aggregate.
\<close>

theorem weekly_activity_witness:
  "day_of (createdAt (written (9 * DAY + 100))) = day_of noon10 - 1
   \<and> day_of (createdAt (written (9 * DAY + 200))) = day_of noon10 - 1
   \<and> day_of (createdAt (written (7 * DAY + 300))) = day_of noon10 - 3
   \<and> weeklyData noon10 [written (9 * DAY + 100), written (9 * DAY + 200), written (7 * DAY + 300)]
       = [0, 0, 0, 1, 0, 2, 0]
   \<and> fault db_one = None
   \<and> stats_weekly db_one noon10 1 = reply 200 (StatsBody [(10, 1)]) db_one []"
proof -
  have h: "day_of (createdAt (written (9 * DAY + 100))) = day_of noon10 - 1
     \<and> day_of (createdAt (written (9 * DAY + 200))) = day_of noon10 - 1
     \<and> day_of (createdAt (written (7 * DAY + 300))) = day_of noon10 - 3"
    by (simp add: written_def day_of_def noon10_def DAY_def)
  have f: "fault db_one = None" by (simp add: db_one_def)
  have w: "weekly_counts noon10 (filter (\<lambda>j. user j = 1) (docs db_one)) = [(10, 1)]"
    by (simp add: weekly_counts_def db_one_def entry_def day_of_def noon10_def DAY_def)
  note t = weekly_activity [where now = noon10 and a = "written (9 * DAY + 100)"
      and b = "written (9 * DAY + 200)" and c = "written (7 * DAY + 300)" and s = db_one
      and uid = 1]
  from t h have "weeklyData noon10
      [written (9 * DAY + 100), written (9 * DAY + 200), written (7 * DAY + 300)]
       = [0, 0, 0, 1, 0, 2, 0]"
    by blast
  moreover from t f have "stats_weekly db_one noon10 1 =
      reply 200 (StatsBody (weekly_counts noon10 (filter (\<lambda>j. user j = 1) (docs db_one)))) db_one []"
    by blast
  ultimately show ?thesis using h f w by simp
qed

section \<open>The writing streak\<close>

text \<open>
  Both loops in terms of calendar days. The loop of \<^verbatim>\<open>routes/journal.js\<close> is the walk
  of the specification over the days of the entries as they come, without removing
  repeated days; the loop of the later revision agrees with the walk when moreover no
  entry is exactly two days before its predecessor and none lies in the future.
\<close>

lemma midnight_day: "midnight t = day_of t * DAY"
  by (simp add: midnight_def day_of_def DAY_def minus_mod_eq_div_mult)

lemma DAY_pos: "DAY \<noteq> 0"
  by (simp add: DAY_def)

lemma days_between: "(midnight x - midnight y) div DAY = day_of x - day_of y"
proof -
  have "midnight x - midnight y = (day_of x - day_of y) * DAY"
    by (simp add: midnight_day algebra_simps)
  then show ?thesis by (simp add: DAY_pos)
qed

lemma days_from_cursor: "(c * DAY - midnight y) div DAY = c - day_of y"
proof -
  have "c * DAY - midnight y = (c - day_of y) * DAY"
    by (simp add: midnight_day algebra_simps)
  then show ?thesis by (simp add: DAY_pos)
qed

lemma cursor_back: "midnight t - DAY = (day_of t - 1) * DAY"
  by (simp add: midnight_day algebra_simps)

lemma streak_loop_days:
  "streak_loop (a # rest) n = n + spec_walk (day_of (createdAt a)) (map (\<lambda>j. day_of (createdAt j)) rest)"
proof (induction rest arbitrary: a n)
  case Nil
  then show ?case by simp
next
  case (Cons b rest)
  show ?case
    by (simp add: days_between Cons.IH)
qed

lemma streak_of_days:
  "streak_of now js =
     (case map (\<lambda>j. day_of (createdAt j)) js of
        [] \<Rightarrow> 0
      | d # ds \<Rightarrow> if day_of now - d \<ge> 2 then 0 else Suc (spec_walk d ds))"
  by (cases js) (auto simp add: streak_of_def days_between streak_loop_days)

lemma streak_of_refines:
  assumes "distinct_adj (map (\<lambda>j. day_of (createdAt j)) js)"
  shows "streak_of now js = spec_streak now js"
proof -
  from assms have "remdups_adj (map (\<lambda>j. day_of (createdAt j)) js) = map (\<lambda>j. day_of (createdAt j)) js"
    by (simp add: distinct_adj_altdef)
  then show ?thesis
    by (simp add: streak_of_days spec_streak_def)
qed


lemma streak_loop_p3_days:
  "streak_loop_p3 (c * DAY) (j # js) n =
     (if c - day_of (createdAt j) = 0 \<or> c - day_of (createdAt j) = 1
      then streak_loop_p3 ((day_of (createdAt j) - 1) * DAY) js (n + 1) else n)"
  by (simp add: days_from_cursor cursor_back Let_def)

lemma streak_of_p3_days:
  "streak_of_p3 now js = (if js = [] then 0 else streak_loop_p3 (day_of now * DAY) js 0)"
  by (simp add: streak_of_p3_def midnight_day)

lemma streak_scenarios:
  assumes "day_of (createdAt t0) = day_of now" "day_of (createdAt t1) = day_of now - 1"
    "day_of (createdAt t2) = day_of now - 2" "day_of (createdAt t3) = day_of now - 3"
  shows "streak_of now [t0, t1, t2] = 3" "streak_of_p3 now [t0, t1, t2] = 3"
    "streak_of now [t0, t3] = 1" "streak_of_p3 now [t0, t3] = 1"
    "streak_of now [t3] = 0" "streak_of_p3 now [t3] = 0"
    "streak_of now [] = 0" "streak_of_p3 now [] = 0"
    "streak_of now [t1, t2] = 2" "streak_of_p3 now [t1, t2] = 2"
  using assms
  by (simp_all add: streak_of_days streak_of_p3_days streak_loop_p3_days
      del: streak_loop_p3.simps(2))

lemma sorted_twice: "newest_first twice_today = twice_today"
  by (simp add: newest_first_def twice_today_def written_def DAY_def)

lemma sorted_skipped: "newest_first skipped_day = skipped_day"
  by (simp add: newest_first_def skipped_day_def written_def DAY_def)

lemma days_twice: "map (\<lambda>j. day_of (createdAt j)) twice_today = [10, 10, 9]"
  by (simp add: twice_today_def written_def day_of_def DAY_def)

lemma days_skipped: "map (\<lambda>j. day_of (createdAt j)) skipped_day = [10, 8]"
  by (simp add: skipped_day_def written_def day_of_def DAY_def)

lemma day_noon10: "day_of noon10 = 10"
  by (simp add: noon10_def day_of_def DAY_def)

lemma streak_loop_p3_walk:
  assumes "successively (\<lambda>x y. x - y \<noteq> 2) (prev # map (\<lambda>j. day_of (createdAt j)) js)"
  shows "streak_loop_p3 ((prev - 1) * DAY) js n = n + spec_walk prev (map (\<lambda>j. day_of (createdAt j)) js)"
  using assms
proof (induction js arbitrary: prev n)
  case Nil
  then show ?case by simp
next
  case (Cons j js)
  from Cons.prems have g: "prev - day_of (createdAt j) \<noteq> 2"
    and r: "successively (\<lambda>x y. x - y \<noteq> 2) (day_of (createdAt j) # map (\<lambda>j. day_of (createdAt j)) js)"
    by simp_all
  show ?case
    using g by (simp add: streak_loop_p3_days Cons.IH [OF r] del: streak_loop_p3.simps(2))
qed

lemma streak_of_p3_refines:
  assumes "distinct_adj (map (\<lambda>j. day_of (createdAt j)) js)"
    and "successively (\<lambda>x y. x - y \<noteq> 2) (map (\<lambda>j. day_of (createdAt j)) js)"
    and "\<forall>j \<in> set js. day_of (createdAt j) \<le> day_of now"
  shows "streak_of_p3 now js = spec_streak now js"
proof (cases js)
  case Nil
  then show ?thesis by (simp add: streak_of_p3_def spec_streak_def)
next
  case (Cons j rest)
  from assms(1) have e: "remdups_adj (map (\<lambda>j. day_of (createdAt j)) js) = map (\<lambda>j. day_of (createdAt j)) js"
    by (simp add: distinct_adj_altdef)
  from assms(3) Cons have le: "day_of (createdAt j) \<le> day_of now" by simp
  from assms(2) Cons have
    s: "successively (\<lambda>x y. x - y \<noteq> 2) (day_of (createdAt j) # map (\<lambda>j. day_of (createdAt j)) rest)"
    by simp
  from e Cons have e': "remdups_adj (day_of (createdAt j) # map (\<lambda>j. day_of (createdAt j)) rest)
      = day_of (createdAt j) # map (\<lambda>j. day_of (createdAt j)) rest"
    by simp
  show ?thesis
    using le
    by (auto simp add: spec_streak_def e' streak_of_p3_days Cons streak_loop_p3_days
        streak_loop_p3_walk [OF s] simp del: streak_loop_p3.simps(2))
qed

text \<open>
  Claim C4 at two lists of entries, with noon of day 10 as the present. For two
  entries on day 10 followed by one on day 9 the distinct days are 10 and 9 and the
  claim gives 2; both revisions return 1, because the second entry of day 10 is zero
  days before the first and ends the loop. For an entry on day 10 followed by one on
  day 8 the claim gives 1, as does \<^verbatim>\<open>routes/journal.js\<close>; the later revision returns 2,
  because its cursor accepts an entry two days before the one counted last.
\<close>

theorem streak_same_day_entries:
  "day_of noon10 = 10
   \<and> map (\<lambda>j. day_of (createdAt j)) twice_today = [10, 10, 9]
   \<and> newest_first twice_today = twice_today
   \<and> spec_streak noon10 twice_today = 2
   \<and> streak_of noon10 twice_today = 1
   \<and> streak_of_p3 noon10 twice_today = 1
   \<and> map (\<lambda>j. day_of (createdAt j)) skipped_day = [10, 8]
   \<and> newest_first skipped_day = skipped_day
   \<and> spec_streak noon10 skipped_day = 1
   \<and> streak_of noon10 skipped_day = 1
   \<and> streak_of_p3 noon10 skipped_day = 2
   \<and> sent (stats_streak db_twice noon10 0) = StreakBody 1
   \<and> sent (stats_streak_p3 db_twice noon10 0) = StreakBody 1"
proof -
  have 1: "spec_streak noon10 twice_today = 2" "spec_streak noon10 skipped_day = 1"
    by (simp_all add: spec_streak_def days_twice days_skipped day_noon10)
  have 2: "streak_of noon10 twice_today = 1" "streak_of noon10 skipped_day = 1"
    by (simp_all add: streak_of_days days_twice days_skipped day_noon10)
  have 3: "streak_of_p3 noon10 twice_today = 1"
    by (simp add: streak_of_p3_def twice_today_def written_def noon10_def midnight_def
        DAY_def Let_def)
  have 4: "streak_of_p3 noon10 skipped_day = 2"
    by (simp add: streak_of_p3_def skipped_day_def written_def noon10_def midnight_def
        DAY_def Let_def)
  have u: "filter (\<lambda>j. user j = 0) twice_today = twice_today"
    by (simp add: twice_today_def written_def blank_def)
  have 5: "sent (stats_streak db_twice noon10 0) = StreakBody 1"
    "sent (stats_streak_p3 db_twice noon10 0) = StreakBody 1"
    by (simp_all add: stats_streak_def stats_streak_p3_def find_user_def db_twice_def u
        sorted_twice 2 3 reply_def)
  from 1 2 3 4 5 show ?thesis
    by (simp add: day_noon10 days_twice days_skipped sorted_twice sorted_skipped)
qed

section \<open>Achievements\<close>

lemma hasAllMoods_iff:
  "hasAllMoods js \<longleftrightarrow> {''happy'', ''sad'', ''excited'', ''calm''} \<subseteq> mood ` set js"
  by (simp add: hasAllMoods_def list_ex_iff image_iff eq_commute)

lemma achievements_rows:
  "calculateAchievements js s =
     map fst (filter snd
       [((''First Entry'', ''blue''), length js \<ge> 1),
        ((''Getting Started'', ''green''), length js \<ge> 5),
        ((''Dedicated Writer'', ''purple''), length js \<ge> 10),
        ((''Journal Master'', ''yellow''), length js \<ge> 30),
        ((''3 Day Streak'', ''orange''), s \<ge> 3),
        ((''Week Warrior'', ''red''), s \<ge> 7),
        ((''Monthly Legend'', ''gold''), s \<ge> 30),
        ((''Emotion Explorer'', ''pink''), hasAllMoods js)])"
  by (simp add: calculateAchievements_def)

text \<open>
  Claim C9, as stated, at five entries with streak 2 whose moods are happy, sad,
  excited, calm and neutral: the claim promises exactly First Entry and Getting
  Started, the computation also unlocks Emotion Explorer.
\<close>

theorem achievements_five_entries_counterexample:
  "length five_moods = 5
   \<and> map fst (calculateAchievements five_moods 2) \<noteq> [''First Entry'', ''Getting Started'']
   \<and> map fst (calculateAchievements five_moods 2)
       = [''First Entry'', ''Getting Started'', ''Emotion Explorer'']"
  by (simp add: five_moods_def calculateAchievements_def hasAllMoods_def blank_def)

text \<open>
  Claim C9, amended: for every list of entries with \<open>n\<close> entries, streak \<open>s\<close> and moods
  \<open>M\<close>, the computation returns exactly the qualifying rows of the fixed table, in table
  order, each rule evaluated on its own: First Entry iff \<open>n \<ge> 1\<close>, Getting Started iff
  \<open>n \<ge> 5\<close>, Dedicated Writer iff \<open>n \<ge> 10\<close>, Journal Master iff \<open>n \<ge> 30\<close>, 3 Day Streak iff
  \<open>s \<ge> 3\<close>, Week Warrior iff \<open>s \<ge> 7\<close>, Monthly Legend iff \<open>s \<ge> 30\<close>, Emotion Explorer iff
  \<open>M\<close> contains each of happy, sad, excited, calm. In particular \<open>n = 5\<close> with \<open>s = 2\<close>
  unlocks exactly First Entry and Getting Started when the moods do not cover all
  four of happy, sad, excited, calm.
\<close>

theorem achievements_table:
  "calculateAchievements journals s =
     map fst (filter snd
       [((''First Entry'', ''blue''), length journals \<ge> 1),
        ((''Getting Started'', ''green''), length journals \<ge> 5),
        ((''Dedicated Writer'', ''purple''), length journals \<ge> 10),
        ((''Journal Master'', ''yellow''), length journals \<ge> 30),
        ((''3 Day Streak'', ''orange''), s \<ge> 3),
        ((''Week Warrior'', ''red''), s \<ge> 7),
        ((''Monthly Legend'', ''gold''), s \<ge> 30),
        ((''Emotion Explorer'', ''pink''),
           {''happy'', ''sad'', ''excited'', ''calm''} \<subseteq> mood ` set journals)])
   \<and> (length journals = 5 \<and> s = 2
        \<and> \<not> {''happy'', ''sad'', ''excited'', ''calm''} \<subseteq> mood ` set journals
      \<longrightarrow> map fst (calculateAchievements journals s) = [''First Entry'', ''Getting Started''])"
proof (intro conjI impI)
  show "calculateAchievements journals s =
     map fst (filter snd
       [((''First Entry'', ''blue''), length journals \<ge> 1),
        ((''Getting Started'', ''green''), length journals \<ge> 5),
        ((''Dedicated Writer'', ''purple''), length journals \<ge> 10),
        ((''Journal Master'', ''yellow''), length journals \<ge> 30),
        ((''3 Day Streak'', ''orange''), s \<ge> 3),
        ((''Week Warrior'', ''red''), s \<ge> 7),
        ((''Monthly Legend'', ''gold''), s \<ge> 30),
        ((''Emotion Explorer'', ''pink''),
           {''happy'', ''sad'', ''excited'', ''calm''} \<subseteq> mood ` set journals)])"
    unfolding hasAllMoods_iff [symmetric] by (rule achievements_rows)
next
  assume a: "length journals = 5 \<and> s = 2
        \<and> \<not> {''happy'', ''sad'', ''excited'', ''calm''} \<subseteq> mood ` set journals"
  then have "\<not> hasAllMoods journals"
    unfolding hasAllMoods_iff by blast
  with a show "map fst (calculateAchievements journals s) = [''First Entry'', ''Getting Started'']"
    by (simp add: calculateAchievements_def)
qed

text \<open>The amended claim C9 at five entries of mood neutral with streak 2.\<close>

theorem achievements_table_witness:
  "length five_plain = 5
   \<and> \<not> {''happy'', ''sad'', ''excited'', ''calm''} \<subseteq> mood ` set five_plain
   \<and> map fst (calculateAchievements five_plain 2) = [''First Entry'', ''Getting Started'']"
proof -
  have h: "length five_plain = 5 \<and> (2::nat) = 2
        \<and> \<not> {''happy'', ''sad'', ''excited'', ''calm''} \<subseteq> mood ` set five_plain"
    by (simp add: five_plain_def blank_def)
  from achievements_table [of five_plain 2] h
  have "map fst (calculateAchievements five_plain 2) = [''First Entry'', ''Getting Started'']"
    by blast
  with h show ?thesis by blast
qed

section \<open>The daily challenge\<close>

text \<open>
  Claim C10: whatever the body of the request (answer missing, empty or given) and
  whatever the state of the store, the submission endpoint of both revisions answers
  200 with success, the message "Challenge completed!" and 10 points, sends nothing to
  the provider and leaves the store as it was; in particular the collection of
  challenges, and with it the unique index on user and date, is never touched.
\<close>

theorem challenge_submit_fixed:
  "challenge_submit s now uid ans =
     \<lparr> status = 200, sent = ChallengeBody True ''Challenge completed!'' 10, store = s, prompts = [] \<rparr>
   \<and> challenge_submit_p3 s now uid ans =
     \<lparr> status = 200, sent = ChallengeBody True ''Challenge completed!'' 10, store = s, prompts = [] \<rparr>
   \<and> challenges (store (challenge_submit s now uid ans)) = challenges s
   \<and> challenges (store (challenge_submit_p3 s now uid ans)) = challenges s"
  by (simp add: challenge_submit_def challenge_submit_p3_def reply_def)

end
